theory Spec2Isabelle
  imports Main "HOL-Library.Char_ord" "HOL-Library.List_Lexorder" "HOL-Library.Multiset"
begin

section \<open>Python values\<close>

text \<open>
  The datastore handles parsed JSON documents and keyword filters of type \<open>Any\<close>. Both are
  values of \<open>pyval\<close>: \<open>None\<close>, booleans, unbounded integers, strings, lists and
  dictionaries with string keys. A dictionary is an association list in insertion order;
  lookup takes the first entry of a key, and a dictionary built by Python has every key once
  (\<open>wf_pyval\<close> below). A character is a code point below 256. Python floats are left out.
\<close>

datatype pyval =
    PNone
  | PBool bool
  | PInt int
  | PStr string
  | PList "pyval list"
  | PDict "(string \<times> pyval) list"

text \<open>
  Exceptions as values. \<open>KeyError\<close>, \<open>ValueError\<close> and \<open>RuntimeError\<close> carry the
  argument the code raises them with; \<open>TypeError\<close> and \<open>AttributeError\<close> come from the
  interpreter; \<open>ExternalError\<close> stands for an exception of a library (requests, json,
  datapackage).
\<close>

datatype error =
    KeyError string
  | ValueError string
  | RuntimeError string
  | TypeError
  | AttributeError
  | ExternalError string

subsection \<open>Decimal and hexadecimal digits\<close>

definition digit_char :: "nat \<Rightarrow> char" where
  "digit_char n = ''0123456789'' ! n"

fun str_nat :: "nat \<Rightarrow> string" where
  "str_nat n = (if n < 10 then [digit_char n] else str_nat (n div 10) @ [digit_char (n mod 10)])"

declare str_nat.simps [simp del]

definition str_int :: "int \<Rightarrow> string" where
  "str_int i = (if i < 0 then CHR ''-'' # str_nat (nat (- i)) else str_nat (nat i))"

definition hex_digit :: "nat \<Rightarrow> char" where
  "hex_digit n = ''0123456789abcdef'' ! n"

definition hex2 :: "char \<Rightarrow> string" where
  "hex2 c = [hex_digit ((of_char c :: nat) div 16), hex_digit ((of_char c :: nat) mod 16)]"

subsection \<open>\<open>repr\<close> and \<open>str\<close>\<close>

definition backslash :: char where
  "backslash = CHR 0x5C"

definition dquote :: char where
  "dquote = CHR 0x22"

definition squote :: char where
  "squote = CHR 0x27"

definition newline :: char where
  "newline = CHR 0x0A"

fun join :: "string \<Rightarrow> string list \<Rightarrow> string" where
  "join sep [] = []"
| "join sep [x] = x"
| "join sep (x # y # ys) = x @ sep @ join sep (y # ys)"

text \<open>\<open>str.isprintable\<close> on the code points below 256.\<close>

definition py_isprintable :: "char \<Rightarrow> bool" where
  "py_isprintable c =
     (let n = (of_char c :: nat) in (32 \<le> n \<and> n < 127) \<or> (161 \<le> n \<and> n \<noteq> 173))"

definition repr_char :: "char \<Rightarrow> char \<Rightarrow> string" where
  "repr_char q c =
     (if c = q \<or> c = backslash then [backslash, c]
      else if c = CHR 0x09 then [backslash, CHR ''t'']
      else if c = CHR 0x0A then [backslash, CHR ''n'']
      else if c = CHR 0x0D then [backslash, CHR ''r'']
      else if py_isprintable c then [c]
      else [backslash, CHR ''x''] @ hex2 c)"

definition repr_str :: "string \<Rightarrow> string" where
  "repr_str s =
     (let q = (if squote \<in> set s \<and> dquote \<notin> set s then dquote else squote)
      in [q] @ concat (map (repr_char q) s) @ [q])"

fun py_repr :: "pyval \<Rightarrow> string" where
  "py_repr PNone = ''None''"
| "py_repr (PBool b) = (if b then ''True'' else ''False'')"
| "py_repr (PInt i) = str_int i"
| "py_repr (PStr s) = repr_str s"
| "py_repr (PList xs) = ''['' @ join '', '' (map py_repr xs) @ '']''"
| "py_repr (PDict kvs) =
     ''{'' @ join '', '' (map (\<lambda>(k, v). repr_str k @ '': '' @ py_repr v) kvs) @ ''}''"

fun py_str :: "pyval \<Rightarrow> string" where
  "py_str (PStr s) = s"
| "py_str v = py_repr v"

subsection \<open>Truth value, equality, subscription, \<open>dict.get\<close>, iteration\<close>

fun py_truthy :: "pyval \<Rightarrow> bool" where
  "py_truthy PNone = False"
| "py_truthy (PBool b) = b"
| "py_truthy (PInt i) = (i \<noteq> 0)"
| "py_truthy (PStr s) = (s \<noteq> [])"
| "py_truthy (PList xs) = (xs \<noteq> [])"
| "py_truthy (PDict kvs) = (kvs \<noteq> [])"

text \<open>Python's \<open>==\<close>: a boolean equals the integer 0 or 1, dictionaries compare by content.\<close>

fun py_eq :: "pyval \<Rightarrow> pyval \<Rightarrow> bool" where
  "py_eq PNone PNone = True"
| "py_eq (PBool a) (PBool b) = (a = b)"
| "py_eq (PBool a) (PInt j) = ((if a then 1 else 0) = j)"
| "py_eq (PInt i) (PBool b) = (i = (if b then 1 else 0))"
| "py_eq (PInt i) (PInt j) = (i = j)"
| "py_eq (PStr s) (PStr t) = (s = t)"
| "py_eq (PList xs) (PList ys) = list_all2 py_eq xs ys"
| "py_eq (PDict xs) (PDict ys) =
     (length xs = length ys \<and>
      list_all (\<lambda>(k, v). case map_of ys k of None \<Rightarrow> False | Some w \<Rightarrow> py_eq v w) xs)"
| "py_eq _ _ = False"

text \<open>\<open>d[k]\<close>: a missing key raises KeyError, a value that is no dictionary TypeError.\<close>

definition py_getitem :: "pyval \<Rightarrow> string \<Rightarrow> error + pyval" where
  "py_getitem d k =
     (case d of
        PDict kvs \<Rightarrow> (case map_of kvs k of None \<Rightarrow> Inl (KeyError k) | Some v \<Rightarrow> Inr v)
      | _ \<Rightarrow> Inl TypeError)"

text \<open>\<open>d.get(k, dflt)\<close>: only a dictionary has the method.\<close>

definition py_get :: "pyval \<Rightarrow> string \<Rightarrow> pyval \<Rightarrow> error + pyval" where
  "py_get d k dflt =
     (case d of
        PDict kvs \<Rightarrow> Inr (case map_of kvs k of None \<Rightarrow> dflt | Some v \<Rightarrow> v)
      | _ \<Rightarrow> Inl AttributeError)"

text \<open>\<open>for x in v\<close>: a list gives its items, a dictionary its keys, a string its characters.\<close>

definition py_iter :: "pyval \<Rightarrow> error + pyval list" where
  "py_iter v =
     (case v of
        PList xs \<Rightarrow> Inr xs
      | PDict kvs \<Rightarrow> Inr (map (\<lambda>kv. PStr (fst kv)) kvs)
      | PStr s \<Rightarrow> Inr (map (\<lambda>c. PStr [c]) s)
      | _ \<Rightarrow> Inl TypeError)"

text \<open>
  A generator that touches no state, as the finite sequence of what it does: it yields a
  value and goes on, raises, or is exhausted.
\<close>

datatype 'a pygen = Stop | Raise error | Yield 'a "'a pygen"

section \<open>DatapackageDescriptor\<close>

text \<open>
  Modelled from the spec: \<open>PudlResourceKey\<close> is imported from \<open>pudl.workspace.resource_cache\<close>,
  a named tuple of dataset, DOI and resource name. A named tuple does not check the types of
  its fields, so the name is whatever value the manifest entry holds under \<open>"name"\<close>.
\<close>

datatype PudlResourceKey =
  PudlResourceKey (key_dataset: string) (key_doi: string) (key_name: pyval)

record DatapackageDescriptor =
  datapackage_json :: pyval
  dataset :: string
  doi :: string

text \<open>
  \<open>_validate_datapackage\<close>. The parameter \<open>package_errors\<close> stands for the datapackage
  library: \<open>Inr\<close> the list \<open>dp.errors\<close> (each as its string), \<open>dp.valid\<close> being that the
  list is empty, or \<open>Inl\<close> the exception the constructor \<open>datapackage.Package\<close> raises.
\<close>

definition validate_datapackage :: "(pyval \<Rightarrow> error + string list) \<Rightarrow> pyval \<Rightarrow> error + unit" where
  "validate_datapackage package_errors j =
     (case package_errors j of
        Inl e \<Rightarrow> Inl e
      | Inr errs \<Rightarrow>
          if errs = [] then Inr ()
          else Inl (ValueError
                 (foldl (\<lambda>msg e. msg @ ''  * '' @ e @ [newline])
                    (''Found '' @ str_nat (length errs) @ '' datapackage validation errors:'' @ [newline])
                    errs)))"

text \<open>\<open>__init__\<close>: the fields are set, then the manifest is validated.\<close>

definition DatapackageDescriptor_init ::
  "(pyval \<Rightarrow> error + string list) \<Rightarrow> pyval \<Rightarrow> string \<Rightarrow> string \<Rightarrow> error + DatapackageDescriptor" where
  "DatapackageDescriptor_init package_errors j dset d =
     (case validate_datapackage package_errors j of
        Inl e \<Rightarrow> Inl e
      | Inr _ \<Rightarrow> Inr \<lparr>datapackage_json = j, dataset = dset, doi = d\<rparr>)"

text \<open>\<open>get_resource_path\<close>: the loop over the entries, then the method.\<close>

fun resource_path_loop :: "DatapackageDescriptor \<Rightarrow> pyval \<Rightarrow> pyval list \<Rightarrow> error + pyval" where
  "resource_path_loop d name [] =
     Inl (KeyError (''Resource '' @ py_str name @ '' not found for '' @ dataset d @ ''/'' @ doi d))"
| "resource_path_loop d name (res # rest) =
     (case py_getitem res ''name'' of
        Inl e \<Rightarrow> Inl e
      | Inr n \<Rightarrow>
          if py_eq n name then
            (case py_get res ''remote_url'' PNone of
               Inl e \<Rightarrow> Inl e
             | Inr u \<Rightarrow> if py_truthy u then Inr u else py_get res ''path'' PNone)
          else resource_path_loop d name rest)"

definition get_resource_path :: "DatapackageDescriptor \<Rightarrow> pyval \<Rightarrow> error + pyval" where
  "get_resource_path d name =
     (case py_getitem (datapackage_json d) ''resources'' of
        Inl e \<Rightarrow> Inl e
      | Inr rs \<Rightarrow>
          (case py_iter rs of
             Inl e \<Rightarrow> Inl e
           | Inr entries \<Rightarrow> resource_path_loop d name entries))"

text \<open>
  \<open>_matches\<close>: \<open>all\<close> over the filter items stops at the first pair that differs, and
  \<open>parts.get\<close> is only called when there is a filter.
\<close>

fun all_parts_match :: "pyval \<Rightarrow> (string \<times> pyval) list \<Rightarrow> error + bool" where
  "all_parts_match parts [] = Inr True"
| "all_parts_match parts ((k, v) # fs) =
     (case py_get parts k PNone of
        Inl e \<Rightarrow> Inl e
      | Inr p \<Rightarrow> if py_str p = py_str v then all_parts_match parts fs else Inr False)"

definition matches :: "pyval \<Rightarrow> (string \<times> pyval) list \<Rightarrow> error + bool" where
  "matches res filters =
     (case py_get res ''parts'' (PDict []) of
        Inl e \<Rightarrow> Inl e
      | Inr parts \<Rightarrow> all_parts_match parts filters)"

text \<open>
  The call \<open>self._matches(res, **filters)\<close>: a filter named \<open>res\<close> collides with the
  positional parameter and the call raises TypeError.
\<close>

definition call_matches :: "pyval \<Rightarrow> (string \<times> pyval) list \<Rightarrow> error + bool" where
  "call_matches res filters =
     (if ''res'' \<in> set (map fst filters) then Inl TypeError else matches res filters)"

text \<open>\<open>DatapackageDescriptor.get_resources\<close>: the loop body per entry, then the generator.\<close>

fun get_resources_loop ::
  "DatapackageDescriptor \<Rightarrow> pyval \<Rightarrow> (string \<times> pyval) list \<Rightarrow> pyval list \<Rightarrow> PudlResourceKey pygen" where
  "get_resources_loop d name filters [] = Stop"
| "get_resources_loop d name filters (res # rest) =
     (case (if py_truthy name
            then (case py_getitem res ''name'' of Inl e \<Rightarrow> Inl e | Inr n \<Rightarrow> Inr (\<not> py_eq n name))
            else Inr False) of
        Inl e \<Rightarrow> Raise e
      | Inr True \<Rightarrow> get_resources_loop d name filters rest
      | Inr False \<Rightarrow>
          (case call_matches res filters of
             Inl e \<Rightarrow> Raise e
           | Inr False \<Rightarrow> get_resources_loop d name filters rest
           | Inr True \<Rightarrow>
               (case py_getitem res ''name'' of
                  Inl e \<Rightarrow> Raise e
                | Inr n \<Rightarrow>
                    Yield (PudlResourceKey (dataset d) (doi d) n)
                      (get_resources_loop d name filters rest))))"

definition descriptor_get_resources ::
  "DatapackageDescriptor \<Rightarrow> pyval \<Rightarrow> (string \<times> pyval) list \<Rightarrow> PudlResourceKey pygen" where
  "descriptor_get_resources d name filters =
     (case py_getitem (datapackage_json d) ''resources'' of
        Inl e \<Rightarrow> Raise e
      | Inr rs \<Rightarrow>
          (case py_iter rs of
             Inl e \<Rightarrow> Raise e
           | Inr entries \<Rightarrow> get_resources_loop d name filters entries))"


text \<open>
  \<open>get_json_string\<close> is \<open>json.dumps(datapackage_json, sort_keys=True, indent=4)\<close>. The
  encoder of the standard library with these options: strings are escaped to ASCII, the items
  of a dictionary are sorted by key, every nesting level is indented by four spaces, items
  are separated by a comma and a line break, a key from its value by a colon and a space.
\<close>

definition json_escape_char :: "char \<Rightarrow> string" where
  "json_escape_char c =
     (if c = dquote then [backslash, dquote]
      else if c = backslash then [backslash, backslash]
      else if c = CHR 0x0A then [backslash, CHR ''n'']
      else if c = CHR 0x0D then [backslash, CHR ''r'']
      else if c = CHR 0x09 then [backslash, CHR ''t'']
      else if c = CHR 0x08 then [backslash, CHR ''b'']
      else if c = CHR 0x0C then [backslash, CHR ''f'']
      else if 32 \<le> (of_char c :: nat) \<and> (of_char c :: nat) \<le> 126 then [c]
      else [backslash, CHR ''u'', CHR ''0'', CHR ''0''] @ hex2 c)"

definition encode_basestring_ascii :: "string \<Rightarrow> string" where
  "encode_basestring_ascii s = [dquote] @ concat (map json_escape_char s) @ [dquote]"

definition newline_indent :: "nat \<Rightarrow> string" where
  "newline_indent level = newline # replicate (4 * level) CHR '' ''"

function json_encode :: "nat \<Rightarrow> pyval \<Rightarrow> string" where
  "json_encode level PNone = ''null''"
| "json_encode level (PBool b) = (if b then ''true'' else ''false'')"
| "json_encode level (PInt i) = str_int i"
| "json_encode level (PStr s) = encode_basestring_ascii s"
| "json_encode level (PList xs) =
     (if xs = [] then ''[]''
      else ''['' @ newline_indent (Suc level)
           @ join ('','' @ newline_indent (Suc level)) (map (json_encode (Suc level)) xs)
           @ newline_indent level @ '']'')"
| "json_encode level (PDict kvs) =
     (if kvs = [] then ''{}''
      else ''{'' @ newline_indent (Suc level)
           @ join ('','' @ newline_indent (Suc level))
               (map (\<lambda>kv. encode_basestring_ascii (fst kv) @ '': '' @ json_encode (Suc level) (snd kv))
                  (sort_key fst kvs))
           @ newline_indent level @ ''}'')"
  by pat_completeness auto
termination
proof (relation "measure (\<lambda>(l, v). size v)", goal_cases)
  case 1
  show ?case by simp
next
  case (2 level xs x)
  then have "size x \<le> size_list size xs"
    by (auto intro: size_list_estimation')
  then show ?case by simp
next
  case (3 level kvs kv)
  then have "kv \<in> set kvs" by simp
  moreover have "size (snd kv) \<le> size_prod (\<lambda>x. 0) size kv"
    by (cases kv) simp
  ultimately have "size (snd kv) \<le> size_list (size_prod (\<lambda>x. 0) size) kvs"
    by (rule size_list_estimation')
  then show ?case by simp
qed

definition json_dumps :: "pyval \<Rightarrow> string" where
  "json_dumps v = json_encode 0 v"

definition get_json_string :: "DatapackageDescriptor \<Rightarrow> string" where
  "get_json_string d = json_dumps (datapackage_json d)"


section \<open>ZenodoFetcher\<close>

text \<open>
  What the program does not decide is a parameter. A request is the URL and the access token
  sent as the query parameter \<open>access_token\<close> (every request also carries the timeout).
  \<open>http_get\<close> is \<open>self.http.get\<close>, the session with the retrying adapter mounted: from the
  requests sent so far and the request it gives the response the session returns, or the
  exception it raises (no connection, a timeout, the retries of the adapter used up). A
  response has its status code, its text, its content and what \<open>json()\<close> makes of it.
  \<open>package_errors\<close> is the datapackage library (see \<open>validate_datapackage\<close>), and
  \<open>json_loads\<close> is \<open>json.loads(b.decode('utf-8'))\<close> on cached bytes.
\<close>

record response =
  status_code :: nat
  resp_text :: string
  resp_content :: string
  resp_json :: "error + pyval"

record world =
  http_get :: "(string \<times> string) list \<Rightarrow> string \<times> string \<Rightarrow> error + response"
  package_errors :: "pyval \<Rightarrow> error + string list"
  json_loads :: "string \<Rightarrow> error + pyval"

definition TOKEN :: "(string \<times> string) list" where
  "TOKEN =
     [(''sandbox'', ''qyPC29wGPaflUUVAv1oGw99ytwBqwEEdwi4NuUrpwc3xUcEwbmuB4emwysco''),
      (''production'', ''KXcG5s9TqeuPh1Ukt5QYbzhCElp9LxuqAuiwdqHP0WS4qGIQiydHn6FBtdJ5'')]"

definition DOI :: "(string \<times> (string \<times> string) list) list" where
  "DOI =
     [(''sandbox'',
         [(''censusdp1tract'', ''10.5072/zenodo.674992''),
          (''eia860'', ''10.5072/zenodo.672210''),
          (''eia860m'', ''10.5072/zenodo.692655''),
          (''eia861'', ''10.5072/zenodo.687052''),
          (''eia923'', ''10.5072/zenodo.687071''),
          (''epacems'', ''10.5072/zenodo.672963''),
          (''ferc1'', ''10.5072/zenodo.687072''),
          (''ferc714'', ''10.5072/zenodo.672224'')]),
      (''production'',
         [(''censusdp1tract'', ''10.5281/zenodo.4127049''),
          (''eia860'', ''10.5281/zenodo.4127027''),
          (''eia860m'', ''10.5281/zenodo.4281337''),
          (''eia861'', ''10.5281/zenodo.4127029''),
          (''eia923'', ''10.5281/zenodo.4127040''),
          (''epacems'', ''10.5281/zenodo.4127055''),
          (''ferc1'', ''10.5281/zenodo.4127044''),
          (''ferc714'', ''10.5281/zenodo.4127101'')])]"

definition API_ROOT :: "(string \<times> string) list" where
  "API_ROOT =
     [(''sandbox'', ''https://sandbox.zenodo.org/api''),
      (''production'', ''https://zenodo.org/api'')]"

text \<open>
  The fetcher: its three settings, the memo \<open>_descriptor_cache\<close> from DOI to descriptor, and
  for the session \<open>self.http\<close> the requests sent so far, oldest first.
\<close>

record ZenodoFetcher =
  api_root :: string
  token :: string
  dataset_to_doi :: "(string \<times> string) list"
  descriptor_cache :: "string \<rightharpoonup> DatapackageDescriptor"
  http_log :: "(string \<times> string) list"

definition ZenodoFetcher_init :: "bool \<Rightarrow> ZenodoFetcher" where
  "ZenodoFetcher_init sandbox =
     (let backend = (if sandbox then ''sandbox'' else ''production'')
      in \<lparr>api_root = the (map_of API_ROOT backend),
          token = the (map_of TOKEN backend),
          dataset_to_doi = the (map_of DOI backend),
          descriptor_cache = Map.empty,
          http_log = []\<rparr>)"

text \<open>
  \<open>_fetch_from_url\<close>. Only the status 200 (\<open>requests.codes.ok\<close>) returns the response. A
  URL that is no string never leaves the library: it raises before a request is sent.
\<close>

definition fetch_from_url ::
  "world \<Rightarrow> pyval \<Rightarrow> ZenodoFetcher \<Rightarrow> (error + response) \<times> ZenodoFetcher" where
  "fetch_from_url w url f =
     (case url of
        PStr u \<Rightarrow>
          (let f' = f\<lparr>http_log := http_log f @ [(u, token f)]\<rparr>
           in case http_get w (http_log f) (u, token f) of
                Inl e \<Rightarrow> (Inl e, f')
              | Inr r \<Rightarrow>
                  if status_code r = 200 then (Inr r, f')
                  else (Inl (ValueError (''Could not download '' @ u @ '': '' @ resp_text r)), f'))
      | _ \<Rightarrow> (Inl (ExternalError ''Invalid URL''), f))"

text \<open>
  \<open>_doi_to_url\<close>: \<open>re.search(r"zenodo.([\d]+)", doi)\<close> finds the leftmost place where
  \<open>zenodo\<close>, any one character but a line break, and one or more digits follow each other;
  the digits are read as a number and written out again.
\<close>

definition is_digit :: "char \<Rightarrow> bool" where
  "is_digit c = (48 \<le> (of_char c :: nat) \<and> (of_char c :: nat) \<le> 57)"

definition match_zenodo :: "string \<Rightarrow> string option" where
  "match_zenodo s =
     (if take 6 s = ''zenodo'' then
        (case drop 6 s of
           [] \<Rightarrow> None
         | c # rest \<Rightarrow>
             if c = newline \<or> takeWhile is_digit rest = [] then None
             else Some (takeWhile is_digit rest))
      else None)"

fun search_zenodo :: "string \<Rightarrow> string option" where
  "search_zenodo [] = None"
| "search_zenodo (c # cs) =
     (case match_zenodo (c # cs) of
        Some g \<Rightarrow> Some g
      | None \<Rightarrow> search_zenodo cs)"

definition int_of_digits :: "string \<Rightarrow> nat" where
  "int_of_digits s = foldl (\<lambda>n c. 10 * n + ((of_char c :: nat) - 48)) 0 s"

definition doi_to_url :: "ZenodoFetcher \<Rightarrow> string \<Rightarrow> error + string" where
  "doi_to_url f d =
     (case search_zenodo d of
        None \<Rightarrow> Inl (ValueError (''Invalid doi '' @ d))
      | Some g \<Rightarrow> Inr (api_root f @ ''/deposit/depositions/'' @ str_nat (int_of_digits g)))"

text \<open>
  \<open>get_descriptor\<close>. The loop over the files of the deposition: at the first file named
  \<open>datapackage.json\<close> the manifest is fetched, the descriptor built and stored under the
  DOI; a loop that ends without one raises RuntimeError (the \<open>else\<close> of the \<open>for\<close>).
\<close>

fun get_descriptor_loop ::
  "world \<Rightarrow> string \<Rightarrow> string \<Rightarrow> pyval list \<Rightarrow> ZenodoFetcher
     \<Rightarrow> (error + DatapackageDescriptor) \<times> ZenodoFetcher" where
  "get_descriptor_loop w dset d [] f =
     (Inl (RuntimeError (''Zenodo datapackage for '' @ dset @ ''/'' @ d
             @ '' does not contain valid datapackage.json'')), f)"
| "get_descriptor_loop w dset d (file # rest) f =
     (case py_getitem file ''filename'' of
        Inl e \<Rightarrow> (Inl e, f)
      | Inr fn \<Rightarrow>
          if py_eq fn (PStr ''datapackage.json'') then
            (case py_getitem file ''links'' of
               Inl e \<Rightarrow> (Inl e, f)
             | Inr links \<Rightarrow>
                 (case py_getitem links ''download'' of
                    Inl e \<Rightarrow> (Inl e, f)
                  | Inr url \<Rightarrow>
                      (case fetch_from_url w url f of
                         (Inl e, f1) \<Rightarrow> (Inl e, f1)
                       | (Inr resp, f1) \<Rightarrow>
                           (case resp_json resp of
                              Inl e \<Rightarrow> (Inl e, f1)
                            | Inr j \<Rightarrow>
                                (case DatapackageDescriptor_init (package_errors w) j dset d of
                                   Inl e \<Rightarrow> (Inl e, f1)
                                 | Inr desc \<Rightarrow>
                                     (Inr desc,
                                      f1\<lparr>descriptor_cache := (descriptor_cache f1)(d \<mapsto> desc)\<rparr>))))))
          else get_descriptor_loop w dset d rest f)"

definition get_descriptor ::
  "world \<Rightarrow> string \<Rightarrow> ZenodoFetcher \<Rightarrow> (error + DatapackageDescriptor) \<times> ZenodoFetcher" where
  "get_descriptor w dset f =
     (case map_of (dataset_to_doi f) dset of
        None \<Rightarrow> (Inl (KeyError (''No doi found for dataset '' @ dset)), f)
      | Some d \<Rightarrow>
          if d = [] then (Inl (KeyError (''No doi found for dataset '' @ dset)), f)
          else
            (case descriptor_cache f d of
               Some desc \<Rightarrow> (Inr desc, f)
             | None \<Rightarrow>
                 (case doi_to_url f d of
                    Inl e \<Rightarrow> (Inl e, f)
                  | Inr url \<Rightarrow>
                      (case fetch_from_url w (PStr url) f of
                         (Inl e, f1) \<Rightarrow> (Inl e, f1)
                       | (Inr dpkg, f1) \<Rightarrow>
                           (case resp_json dpkg of
                              Inl e \<Rightarrow> (Inl e, f1)
                            | Inr j \<Rightarrow>
                                (case py_getitem j ''files'' of
                                   Inl e \<Rightarrow> (Inl e, f1)
                                 | Inr files \<Rightarrow>
                                     (case py_iter files of
                                        Inl e \<Rightarrow> (Inl e, f1)
                                      | Inr fs \<Rightarrow> get_descriptor_loop w dset d fs f1)))))))"

definition get_doi :: "ZenodoFetcher \<Rightarrow> string \<Rightarrow> error + string" where
  "get_doi f dset =
     (case map_of (dataset_to_doi f) dset of
        None \<Rightarrow> Inl (KeyError dset)
      | Some d \<Rightarrow> Inr d)"

text \<open>\<open>ZenodoFetcher.get_resource\<close>: the content of the resource, from its URL.\<close>

definition get_resource ::
  "world \<Rightarrow> PudlResourceKey \<Rightarrow> ZenodoFetcher \<Rightarrow> (error + string) \<times> ZenodoFetcher" where
  "get_resource w res f =
     (case get_descriptor w (key_dataset res) f of
        (Inl e, f1) \<Rightarrow> (Inl e, f1)
      | (Inr desc, f1) \<Rightarrow>
          (case get_resource_path desc (key_name res) of
             Inl e \<Rightarrow> (Inl e, f1)
           | Inr url \<Rightarrow>
               (case fetch_from_url w url f1 of
                  (Inl e, f2) \<Rightarrow> (Inl e, f2)
                | (Inr r, f2) \<Rightarrow> (Inr (resp_content r), f2))))"


section \<open>LayeredCache\<close>

text \<open>
  Modelled from the spec: the module \<open>pudl.workspace.resource_cache\<close> with \<open>LayeredCache\<close>
  is not among the sources. A layer is a store from resource keys to bytes and a flag that
  says whether it is writable; the cache is the list of its layers, the preferred one first.
  \<open>contains\<close> holds when some layer has the key. \<open>get\<close> returns the bytes of the first layer
  that has the key and writes them into every layer before it, and fails with a lookup error
  when no layer has the key. \<open>set\<close> writes to every writable layer.
\<close>

record cache_layer =
  store :: "PudlResourceKey \<rightharpoonup> string"
  writable :: bool

definition cache_contains :: "cache_layer list \<Rightarrow> PudlResourceKey \<Rightarrow> bool" where
  "cache_contains c k = list_ex (\<lambda>l. store l k \<noteq> None) c"

fun cache_find :: "cache_layer list \<Rightarrow> PudlResourceKey \<Rightarrow> (string \<times> cache_layer list) option" where
  "cache_find [] k = None"
| "cache_find (l # ls) k =
     (case store l k of
        Some b \<Rightarrow> Some (b, l # ls)
      | None \<Rightarrow>
          (case cache_find ls k of
             None \<Rightarrow> None
           | Some (b, ls') \<Rightarrow> Some (b, l\<lparr>store := (store l)(k \<mapsto> b)\<rparr> # ls')))"

definition cache_get ::
  "cache_layer list \<Rightarrow> PudlResourceKey \<Rightarrow> (error + string) \<times> cache_layer list" where
  "cache_get c k =
     (case cache_find c k of
        None \<Rightarrow> (Inl (KeyError (py_str (key_name k))), c)
      | Some (b, c') \<Rightarrow> (Inr b, c'))"

definition cache_set :: "cache_layer list \<Rightarrow> PudlResourceKey \<Rightarrow> string \<Rightarrow> cache_layer list" where
  "cache_set c k b = map (\<lambda>l. if writable l then l\<lparr>store := (store l)(k \<mapsto> b)\<rparr> else l) c"

section \<open>Datastore\<close>

record Datastore =
  cache :: "cache_layer list"
  datapackage_descriptors :: "string \<rightharpoonup> DatapackageDescriptor"
  zenodo_fetcher :: ZenodoFetcher

text \<open>
  \<open>__init__\<close>: a layer for the local path when one is given, then one for the bucket when
  one is given (each with what the directory or the bucket holds), and a new fetcher.
\<close>

definition Datastore_init :: "cache_layer option \<Rightarrow> cache_layer option \<Rightarrow> bool \<Rightarrow> Datastore" where
  "Datastore_init local_cache gcs_cache sandbox =
     \<lparr>cache = (case local_cache of None \<Rightarrow> [] | Some l \<Rightarrow> [l])
               @ (case gcs_cache of None \<Rightarrow> [] | Some l \<Rightarrow> [l]),
      datapackage_descriptors = Map.empty,
      zenodo_fetcher = ZenodoFetcher_init sandbox\<rparr>"

text \<open>
  \<open>get_datapackage_descriptor\<close>. The serialised manifest is ASCII, so its bytes in UTF-8
  are its characters.
\<close>

definition get_datapackage_descriptor ::
  "world \<Rightarrow> string \<Rightarrow> Datastore \<Rightarrow> (error + DatapackageDescriptor) \<times> Datastore" where
  "get_datapackage_descriptor w dset s =
     (case get_doi (zenodo_fetcher s) dset of
        Inl e \<Rightarrow> (Inl e, s)
      | Inr d \<Rightarrow>
          (case datapackage_descriptors s d of
             Some desc \<Rightarrow> (Inr desc, s)
           | None \<Rightarrow>
               (let res = PudlResourceKey dset d (PStr ''datapackage.json'')
                in if cache_contains (cache s) res then
                     (case cache_get (cache s) res of
                        (Inl e, c1) \<Rightarrow> (Inl e, s\<lparr>cache := c1\<rparr>)
                      | (Inr b, c1) \<Rightarrow>
                          (case json_loads w b of
                             Inl e \<Rightarrow> (Inl e, s\<lparr>cache := c1\<rparr>)
                           | Inr j \<Rightarrow>
                               (case DatapackageDescriptor_init (package_errors w) j dset d of
                                  Inl e \<Rightarrow> (Inl e, s\<lparr>cache := c1\<rparr>)
                                | Inr desc \<Rightarrow>
                                    (Inr desc,
                                     s\<lparr>cache := c1,
                                       datapackage_descriptors :=
                                         (datapackage_descriptors s)(d \<mapsto> desc)\<rparr>))))
                   else
                     (case get_descriptor w dset (zenodo_fetcher s) of
                        (Inl e, f1) \<Rightarrow> (Inl e, s\<lparr>zenodo_fetcher := f1\<rparr>)
                      | (Inr desc, f1) \<Rightarrow>
                          (Inr desc,
                           s\<lparr>zenodo_fetcher := f1,
                             datapackage_descriptors := (datapackage_descriptors s)(d \<mapsto> desc),
                             cache := cache_set (cache s) res (get_json_string desc)\<rparr>)))))"

text \<open>
  The call \<open>desc.get_resources(**filters)\<close>: a filter named \<open>name\<close> is bound to the
  parameter \<open>name\<close> of the method, the others are its filters. The filters of
  \<open>Datastore.get_resources(self, dataset, **filters)\<close> never hold the keys \<open>self\<close> and
  \<open>dataset\<close>: Python binds those to the parameters.
\<close>

definition call_get_resources ::
  "DatapackageDescriptor \<Rightarrow> (string \<times> pyval) list \<Rightarrow> PudlResourceKey pygen" where
  "call_get_resources desc filters =
     descriptor_get_resources desc
       (case map_of filters ''name'' of None \<Rightarrow> PNone | Some v \<Rightarrow> v)
       (filter (\<lambda>kv. fst kv \<noteq> ''name'') filters)"

text \<open>
  \<open>Datastore.get_resources\<close> is a generator that changes the datastore, so it is a state
  of its own and a step: the generator is not started (nothing has run), suspended in the
  loop with the rest of the descriptor's generator, or finished. \<open>next\<close> gives an item, ends
  with StopIteration, or raises; a generator that raised is finished.
\<close>

datatype resources_gen =
    GenStart string "(string \<times> pyval) list"
  | GenLoop "PudlResourceKey pygen"
  | GenDone

datatype 'a next_result = StopIteration | Raised error | Yielded 'a

definition datastore_get_resources :: "string \<Rightarrow> (string \<times> pyval) list \<Rightarrow> resources_gen" where
  "datastore_get_resources dset filters = GenStart dset filters"

text \<open>The body of the loop for one key: the bytes from the cache, or from Zenodo.\<close>

definition serve_resource ::
  "world \<Rightarrow> PudlResourceKey \<Rightarrow> Datastore \<Rightarrow> (error + string) \<times> Datastore" where
  "serve_resource w res s =
     (if cache_contains (cache s) res then
        (case cache_get (cache s) res of (r, c1) \<Rightarrow> (r, s\<lparr>cache := c1\<rparr>))
      else
        (case get_resource w res (zenodo_fetcher s) of
           (Inl e, f1) \<Rightarrow> (Inl e, s\<lparr>zenodo_fetcher := f1\<rparr>)
         | (Inr contents, f1) \<Rightarrow>
             (Inr contents,
              s\<lparr>zenodo_fetcher := f1, cache := cache_set (cache s) res contents\<rparr>)))"

fun resume_loop ::
  "world \<Rightarrow> PudlResourceKey pygen \<Rightarrow> Datastore
     \<Rightarrow> (PudlResourceKey \<times> string) next_result \<times> resources_gen \<times> Datastore" where
  "resume_loop w Stop s = (StopIteration, GenDone, s)"
| "resume_loop w (Raise e) s = (Raised e, GenDone, s)"
| "resume_loop w (Yield res g) s =
     (case serve_resource w res s of
        (Inl e, s1) \<Rightarrow> (Raised e, GenDone, s1)
      | (Inr b, s1) \<Rightarrow> (Yielded (res, b), GenLoop g, s1))"

fun gen_next ::
  "world \<Rightarrow> resources_gen \<Rightarrow> Datastore
     \<Rightarrow> (PudlResourceKey \<times> string) next_result \<times> resources_gen \<times> Datastore" where
  "gen_next w (GenStart dset filters) s =
     (case get_datapackage_descriptor w dset s of
        (Inl e, s1) \<Rightarrow> (Raised e, GenDone, s1)
      | (Inr desc, s1) \<Rightarrow> resume_loop w (call_get_resources desc filters) s1)"
| "gen_next w (GenLoop g) s = resume_loop w g s"
| "gen_next w GenDone s = (StopIteration, GenDone, s)"

text \<open>\<open>get_unique_resource\<close>: two calls of \<open>next\<close> on one generator.\<close>

definition get_unique_resource ::
  "world \<Rightarrow> string \<Rightarrow> (string \<times> pyval) list \<Rightarrow> Datastore \<Rightarrow> (error + string) \<times> Datastore" where
  "get_unique_resource w dset filters s =
     (case gen_next w (datastore_get_resources dset filters) s of
        (StopIteration, res1, s1) \<Rightarrow>
          (Inl (KeyError (''No resources found for '' @ dset @ '': '' @ py_str (PDict filters))), s1)
      | (Raised e, res1, s1) \<Rightarrow> (Inl e, s1)
      | (Yielded item, res1, s1) \<Rightarrow>
          (case gen_next w res1 s1 of
             (StopIteration, res2, s2) \<Rightarrow> (Inr (snd item), s2)
           | (Raised e, res2, s2) \<Rightarrow> (Inl e, s2)
           | (Yielded item2, res2, s2) \<Rightarrow>
               (Inl (KeyError (''Multiple resources found for '' @ dset @ '': ''
                       @ py_str (PDict filters))), s2)))"

text \<open>
  A caller that asks the generator for up to \<open>n\<close> items (\<open>itertools.islice\<close>, or a \<open>for\<close>
  loop left after \<open>n\<close> rounds): the items, how the last call ended when it gave no item,
  the generator and the datastore afterwards.
\<close>

fun take_items ::
  "world \<Rightarrow> nat \<Rightarrow> resources_gen \<Rightarrow> Datastore
     \<Rightarrow> (PudlResourceKey \<times> string) list \<times> error option \<times> resources_gen \<times> Datastore" where
  "take_items w 0 g s = ([], None, g, s)"
| "take_items w (Suc n) g s =
     (case gen_next w g s of
        (StopIteration, g1, s1) \<Rightarrow> ([], None, g1, s1)
      | (Raised e, g1, s1) \<Rightarrow> ([], Some e, g1, s1)
      | (Yielded item, g1, s1) \<Rightarrow>
          (case take_items w n g1 s1 of
             (items, r, g2, s2) \<Rightarrow> (item # items, r, g2, s2)))"

section \<open>Notions for the statements\<close>

text \<open>A generator that yields the items of a list and is then exhausted.\<close>

fun gen_of_list :: "'a list \<Rightarrow> 'a pygen" where
  "gen_of_list [] = Stop"
| "gen_of_list (x # xs) = Yield x (gen_of_list xs)"

text \<open>
  A declared entry of a manifest is a dictionary with a name, as the schema of a data
  package asks of every resource. \<open>entry_field\<close> is \<open>res.get(k)\<close> on such an entry.
\<close>

fun declared_entry :: "pyval \<Rightarrow> bool" where
  "declared_entry (PDict kvs) = (map_of kvs ''name'' \<noteq> None)"
| "declared_entry _ = False"

definition entry_field :: "pyval \<Rightarrow> string \<Rightarrow> pyval" where
  "entry_field res k =
     (case res of
        PDict kvs \<Rightarrow> (case map_of kvs k of None \<Rightarrow> PNone | Some v \<Rightarrow> v)
      | _ \<Rightarrow> PNone)"

definition resource_key :: "DatapackageDescriptor \<Rightarrow> pyval \<Rightarrow> PudlResourceKey" where
  "resource_key d res = PudlResourceKey (dataset d) (doi d) (entry_field res ''name'')"

definition entry_location :: "pyval \<Rightarrow> pyval" where
  "entry_location res =
     (if py_truthy (entry_field res ''remote_url'') then entry_field res ''remote_url''
      else entry_field res ''path'')"

text \<open>
  An entry of a valid manifest whose partition metadata, when it has some, is a dictionary;
  and what it is for such an entry to be selected by a name and filters: the name is not
  given or equals the entry's, and \<open>_matches\<close> holds.
\<close>

fun partitioned_entry :: "pyval \<Rightarrow> bool" where
  "partitioned_entry (PDict kvs) =
     (map_of kvs ''name'' \<noteq> None
      \<and> (case map_of kvs ''parts'' of None \<Rightarrow> True | Some (PDict ps) \<Rightarrow> True | Some _ \<Rightarrow> False))"
| "partitioned_entry _ = False"

definition entry_selected :: "pyval \<Rightarrow> (string \<times> pyval) list \<Rightarrow> pyval \<Rightarrow> bool" where
  "entry_selected name filters res =
     ((if py_truthy name then py_eq (entry_field res ''name'') name else True)
      \<and> matches res filters = Inr True)"

text \<open>A file of a deposition that has a name other than \<open>datapackage.json\<close>.\<close>

definition other_file :: "pyval \<Rightarrow> bool" where
  "other_file entry =
     (case py_getitem entry ''filename'' of
        Inl e \<Rightarrow> False
      | Inr fn \<Rightarrow> \<not> py_eq fn (PStr ''datapackage.json''))"

text \<open>
  The invariant of validation: every descriptor held in a memo passed the validator. The
  keys a generator yields, the error it ends with if any, and the bytes the cache holds for
  a key, those of the first layer that has it.
\<close>

definition descriptors_valid :: "world \<Rightarrow> (string \<rightharpoonup> DatapackageDescriptor) \<Rightarrow> bool" where
  "descriptors_valid w m =
     (\<forall>d desc. m d = Some desc \<longrightarrow> package_errors w (datapackage_json desc) = Inr [])"

definition datastore_valid :: "world \<Rightarrow> Datastore \<Rightarrow> bool" where
  "datastore_valid w s =
     (descriptors_valid w (datapackage_descriptors s)
      \<and> descriptors_valid w (descriptor_cache (zenodo_fetcher s)))"

fun gen_keys :: "'a pygen \<Rightarrow> 'a list" where
  "gen_keys Stop = []"
| "gen_keys (Raise e) = []"
| "gen_keys (Yield x g) = x # gen_keys g"

fun gen_raises :: "'a pygen \<Rightarrow> error option" where
  "gen_raises Stop = None"
| "gen_raises (Raise e) = Some e"
| "gen_raises (Yield x g) = gen_raises g"

definition cache_lookup :: "cache_layer list \<Rightarrow> PudlResourceKey \<Rightarrow> string option" where
  "cache_lookup c k =
     (case find (\<lambda>l. store l k \<noteq> None) c of
        None \<Rightarrow> None
      | Some l \<Rightarrow> store l k)"

text \<open>
  Two documents have the same content when they differ at most in the order of the entries
  of their dictionaries. A document as Python builds it has every key of a dictionary once.
\<close>

inductive same_content :: "pyval \<Rightarrow> pyval \<Rightarrow> bool" where
  none: "same_content PNone PNone"
| bool: "same_content (PBool b) (PBool b)"
| int: "same_content (PInt i) (PInt i)"
| str: "same_content (PStr s) (PStr s)"
| list: "list_all2 same_content xs ys \<Longrightarrow> same_content (PList xs) (PList ys)"
| dict: "list_all2 (\<lambda>a b. fst a = fst b \<and> same_content (snd a) (snd b)) xs zs \<Longrightarrow>
         mset zs = mset ys \<Longrightarrow> same_content (PDict xs) (PDict ys)"

fun wf_pyval :: "pyval \<Rightarrow> bool" where
  "wf_pyval (PList xs) = list_all wf_pyval xs"
| "wf_pyval (PDict kvs) = (distinct (map fst kvs) \<and> list_all (\<lambda>kv. wf_pyval (snd kv)) kvs)"
| "wf_pyval _ = True"

section \<open>Examples\<close>

text \<open>
  A manifest with three resources: one with a path only, one whose \<open>remote_url\<close> is the
  empty string, one with both a \<open>remote_url\<close> and a path.
\<close>

definition example_entries :: "pyval list" where
  "example_entries =
     [PDict [(''name'', PStr ''r1''), (''path'', PStr ''http://x/r1''),
             (''parts'', PDict [(''year'', PStr ''2020'')])],
      PDict [(''name'', PStr ''r2''), (''remote_url'', PStr ''''),
             (''path'', PStr ''http://x/r2'')],
      PDict [(''name'', PStr ''r3''), (''remote_url'', PStr ''http://y/r3''),
             (''path'', PStr ''r3.zip''), (''parts'', PDict [(''year'', PStr ''2021'')])]]"

definition example_descriptor :: DatapackageDescriptor where
  "example_descriptor =
     \<lparr>datapackage_json = PDict [(''name'', PStr ''pudl-eia860''), (''resources'', PList example_entries)],
      dataset = ''eia860'',
      doi = ''10.5281/zenodo.4127027''\<rparr>"

text \<open>
  Responses, and a world for the production archive: the deposition of \<open>eia860\<close> lists a
  data file and \<open>datapackage.json\<close>, the manifest of the example above; the deposition of
  \<open>eia861\<close> lists no \<open>datapackage.json\<close>; three URLs give the bytes of the resources;
  every other URL answers 404. The validator refuses a manifest without \<open>resources\<close>.
\<close>

definition example_response :: "nat \<Rightarrow> string \<Rightarrow> response" where
  "example_response code body =
     \<lparr>status_code = code, resp_text = body, resp_content = body,
      resp_json = Inl (ExternalError ''JSONDecodeError'')\<rparr>"

definition status_world :: "nat \<Rightarrow> world" where
  "status_world code =
     \<lparr>http_get = (\<lambda>log req. Inr (example_response code ''gone'')),
      package_errors = (\<lambda>j. Inr []),
      json_loads = (\<lambda>b. Inl (ExternalError ''JSONDecodeError''))\<rparr>"

definition ok_json :: "pyval \<Rightarrow> response" where
  "ok_json j = \<lparr>status_code = 200, resp_text = '''', resp_content = '''', resp_json = Inr j\<rparr>"

definition example_files :: "string \<Rightarrow> pyval" where
  "example_files fn =
     PDict [(''files'',
             PList [PDict [(''filename'', PStr ''eia-2020.zip''),
                           (''links'', PDict [(''download'', PStr ''https://zenodo.org/api/files/a/eia-2020.zip'')])],
                    PDict [(''filename'', PStr fn),
                           (''links'', PDict [(''download'', PStr ''https://zenodo.org/api/files/a/datapackage.json'')])]])]"

definition example_http :: "(string \<times> string) list \<Rightarrow> string \<times> string \<Rightarrow> error + response" where
  "example_http log req =
     (if fst req = ''https://zenodo.org/api/deposit/depositions/4127027''
        then Inr (ok_json (example_files ''datapackage.json''))
      else if fst req = ''https://zenodo.org/api/deposit/depositions/4127029''
        then Inr (ok_json (example_files ''readme.txt''))
      else if fst req = ''https://zenodo.org/api/files/a/datapackage.json''
        then Inr (ok_json (datapackage_json example_descriptor))
      else if fst req = ''http://x/r1'' then Inr (example_response 200 ''one'')
      else if fst req = ''http://x/r2'' then Inr (example_response 200 ''two'')
      else if fst req = ''http://y/r3'' then Inr (example_response 200 ''three'')
      else Inr (example_response 404 ''gone''))"

definition example_package_errors :: "pyval \<Rightarrow> error + string list" where
  "example_package_errors j =
     (case py_getitem j ''resources'' of
        Inl e \<Rightarrow> Inr [''resources is a required property'', ''no valid profile'']
      | Inr rs \<Rightarrow> Inr [])"

definition example_world :: world where
  "example_world =
     \<lparr>http_get = example_http,
      package_errors = example_package_errors,
      json_loads = (\<lambda>b. Inl (ExternalError ''JSONDecodeError''))\<rparr>"

text \<open>
  A datastore with one empty, writable local layer, and the states it goes through when the
  descriptor of \<open>eia860\<close> is obtained and the three resources are served in turn.
\<close>

definition example_store :: Datastore where
  "example_store = Datastore_init (Some \<lparr>store = Map.empty, writable = True\<rparr>) None False"

definition example_key :: "string \<Rightarrow> PudlResourceKey" where
  "example_key n = PudlResourceKey ''eia860'' ''10.5281/zenodo.4127027'' (PStr n)"

definition example_s0 :: Datastore where
  "example_s0 = snd (get_datapackage_descriptor example_world ''eia860'' example_store)"

definition example_s1 :: Datastore where
  "example_s1 = snd (serve_resource example_world (example_key ''r1'') example_s0)"

definition example_s2 :: Datastore where
  "example_s2 = snd (serve_resource example_world (example_key ''r2'') example_s1)"

definition example_s3 :: Datastore where
  "example_s3 = snd (serve_resource example_world (example_key ''r3'') example_s2)"

text \<open>
  One manifest written with its keys in two orders, and its canonical form.
\<close>

definition example_manifest_a :: pyval where
  "example_manifest_a =
     PDict [(''resources'', PList [PDict [(''path'', PStr ''r1.zip''), (''name'', PStr ''r1'')]]),
            (''name'', PStr ''x'')]"

definition example_manifest_b :: pyval where
  "example_manifest_b =
     PDict [(''name'', PStr ''x''),
            (''resources'', PList [PDict [(''name'', PStr ''r1''), (''path'', PStr ''r1.zip'')]])]"

definition example_canonical :: string where
  "example_canonical =
     ''{'' @ [newline]
     @ ''    \"name\": \"x\",'' @ [newline]
     @ ''    \"resources\": ['' @ [newline]
     @ ''        {'' @ [newline]
     @ ''            \"name\": \"r1\",'' @ [newline]
     @ ''            \"path\": \"r1.zip\"'' @ [newline]
     @ ''        }'' @ [newline]
     @ ''    ]'' @ [newline]
     @ ''}''"

section \<open>Properties of the descriptor\<close>

lemma all_parts_match_dict:
  "all_parts_match (PDict ps) filters =
     Inr (\<forall>(k, v) \<in> set filters. py_str (case map_of ps k of None \<Rightarrow> PNone | Some p \<Rightarrow> p) = py_str v)"
  by (induction filters) (auto simp: py_get_def)

text \<open>
  Claim C4. For an entry whose partition metadata is a dictionary \<open>ps\<close> (the empty one when
  the entry has no \<open>parts\<close>), \<open>_matches\<close> holds exactly when for every filter \<open>k = v\<close> the
  string form of \<open>ps.get(k)\<close> equals the string form of \<open>v\<close>. A partition key that is
  missing gives \<open>None\<close>, whose string form is \<open>None\<close>; so the filter value \<open>"None"\<close> matches
  an entry without that partition key.
\<close>

theorem matches_compares_strings:
  assumes "py_get res ''parts'' (PDict []) = Inr (PDict ps)"
  shows "matches res filters =
           Inr (\<forall>(k, v) \<in> set filters.
                  py_str (case map_of ps k of None \<Rightarrow> PNone | Some p \<Rightarrow> p) = py_str v)
         \<and> py_str PNone = ''None''
         \<and> (map_of ps k = None \<longrightarrow> matches res [(k, PStr ''None'')] = Inr True)"
  using assms by (simp add: matches_def all_parts_match_dict py_get_def)

theorem matches_compares_strings_witness:
  "matches (PDict [(''name'', PStr ''r1''), (''parts'', PDict [(''year'', PInt 2020)])])
     [(''year'', PStr ''2020''), (''state'', PStr ''None'')] = Inr True
   \<and> matches (PDict [(''name'', PStr ''r1''), (''parts'', PDict [(''year'', PInt 2020)])])
     [(''state'', PStr ''None'')] = Inr True"
proof -
  let ?res = "PDict [(''name'', PStr ''r1''), (''parts'', PDict [(''year'', PInt 2020)])]"
  have parts: "py_get ?res ''parts'' (PDict []) = Inr (PDict [(''year'', PInt 2020)])"
    by (simp add: py_get_def)
  have year: "py_str (PInt 2020) = ''2020''"
    by code_simp
  from matches_compares_strings [OF parts, of "[(''year'', PStr ''2020''), (''state'', PStr ''None'')]" "''state''"]
    year
  show ?thesis by simp
qed

lemma declared_entry_getitem:
  "declared_entry res \<Longrightarrow> py_getitem res ''name'' = Inr (entry_field res ''name'')"
  by (cases res) (auto simp: py_getitem_def entry_field_def)

lemma declared_entry_get_None:
  "declared_entry res \<Longrightarrow> py_get res k PNone = Inr (entry_field res k)"
  by (cases res) (auto simp: py_get_def entry_field_def)

lemma declared_entry_matches_nil:
  "declared_entry res \<Longrightarrow> call_matches res [] = Inr True"
  by (cases res) (auto simp: call_matches_def matches_def py_get_def)

lemma get_resources_loop_all:
  "list_all declared_entry entries \<Longrightarrow>
   get_resources_loop d PNone [] entries = gen_of_list (map (resource_key d) entries)"
  by (induction entries)
     (simp_all add: declared_entry_getitem declared_entry_matches_nil resource_key_def)

lemma example_resources:
  "py_getitem (datapackage_json example_descriptor) ''resources'' = Inr (PList example_entries)"
  by (simp add: example_descriptor_def py_getitem_def)

lemma example_entries_declared: "list_all declared_entry example_entries"
  by (simp add: example_entries_def)

text \<open>
  Claim C3. For a descriptor whose manifest has a list of resources, each a dictionary with
  a name (a valid manifest), \<open>get_resources\<close> with no name and no filters yields the key of
  every entry once, in the order of the manifest, and is then exhausted.
\<close>

theorem get_resources_every_entry_once:
  assumes "py_getitem (datapackage_json d) ''resources'' = Inr (PList entries)"
    and "list_all declared_entry entries"
  shows "descriptor_get_resources d PNone [] = gen_of_list (map (resource_key d) entries)"
  using assms by (simp add: descriptor_get_resources_def py_iter_def get_resources_loop_all)

theorem get_resources_every_entry_once_witness:
  "descriptor_get_resources example_descriptor PNone [] =
     Yield (PudlResourceKey ''eia860'' ''10.5281/zenodo.4127027'' (PStr ''r1''))
       (Yield (PudlResourceKey ''eia860'' ''10.5281/zenodo.4127027'' (PStr ''r2''))
          (Yield (PudlResourceKey ''eia860'' ''10.5281/zenodo.4127027'' (PStr ''r3'')) Stop))"
  using get_resources_every_entry_once [OF example_resources example_entries_declared]
  by (simp add: example_entries_def example_descriptor_def resource_key_def entry_field_def)

lemma resource_path_loop_find:
  "list_all declared_entry entries \<Longrightarrow>
   resource_path_loop d name entries =
     (case find (\<lambda>e. py_eq (entry_field e ''name'') name) entries of
        None \<Rightarrow> Inl (KeyError (''Resource '' @ py_str name @ '' not found for '' @ dataset d @ ''/'' @ doi d))
      | Some e \<Rightarrow> Inr (entry_location e))"
  by (induction entries)
     (auto simp: declared_entry_getitem declared_entry_get_None entry_location_def)

text \<open>
  Claim C5, as the code has it. For a valid manifest, \<open>get_resource_path\<close> takes the first
  entry whose name equals the given one and returns its \<open>remote_url\<close> when that is set to
  a value that counts as true (not missing, not null, not the empty string), and the value
  under \<open>path\<close> otherwise (\<open>None\<close> when there is none); with no entry of that name it raises
  KeyError.
\<close>

theorem get_resource_path_truthy_remote_url:
  assumes "py_getitem (datapackage_json d) ''resources'' = Inr (PList entries)"
    and "list_all declared_entry entries"
  shows "get_resource_path d name =
     (case find (\<lambda>e. py_eq (entry_field e ''name'') name) entries of
        None \<Rightarrow> Inl (KeyError (''Resource '' @ py_str name @ '' not found for '' @ dataset d @ ''/'' @ doi d))
      | Some e \<Rightarrow>
          Inr (if py_truthy (entry_field e ''remote_url'') then entry_field e ''remote_url''
               else entry_field e ''path''))"
  using assms
  by (simp add: get_resource_path_def py_iter_def resource_path_loop_find entry_location_def
        split: option.splits)

theorem get_resource_path_truthy_remote_url_witness:
  "get_resource_path example_descriptor (PStr ''r3'') = Inr (PStr ''http://y/r3'')
   \<and> get_resource_path example_descriptor (PStr ''r1'') = Inr (PStr ''http://x/r1'')
   \<and> get_resource_path example_descriptor (PStr ''r9'')
       = Inl (KeyError ''Resource r9 not found for eia860/10.5281/zenodo.4127027'')"
  using get_resource_path_truthy_remote_url [OF example_resources example_entries_declared, of "PStr ''r3''"]
    get_resource_path_truthy_remote_url [OF example_resources example_entries_declared, of "PStr ''r1''"]
    get_resource_path_truthy_remote_url [OF example_resources example_entries_declared, of "PStr ''r9''"]
  by (simp add: entry_field_def example_descriptor_def example_entries_def)

text \<open>
  Claim C5, as the spec has it, fails: the entry \<open>r2\<close> of the example has the field
  \<open>remote_url\<close>, the empty string, and \<open>get_resource_path\<close> returns its path.
\<close>

theorem get_resource_path_empty_remote_url:
  "py_getitem (example_entries ! 1) ''remote_url'' = Inr (PStr '''')
   \<and> get_resource_path example_descriptor (PStr ''r2'') = Inr (PStr ''http://x/r2'')"
  by (simp add: example_descriptor_def example_entries_def get_resource_path_def
        py_getitem_def py_iter_def py_get_def)

section \<open>Properties of the fetcher\<close>

text \<open>
  Claim C7, as the code has it. What \<open>_fetch_from_url\<close> does is decided by what the session
  gives: an exception of the session is passed on as it is (that is how the adapter ends
  when its retries are used up), a response with the status 200 is returned, and for every
  other status the fetch fails with a ValueError whose message is made of the URL and the
  text of the response.
\<close>

theorem fetch_from_url_not_ok:
  "fst (fetch_from_url w (PStr u) f) =
     (case http_get w (http_log f) (u, token f) of
        Inl e \<Rightarrow> Inl e
      | Inr r \<Rightarrow>
          if status_code r = 200 then Inr r
          else Inl (ValueError (''Could not download '' @ u @ '': '' @ resp_text r)))"
  by (simp add: fetch_from_url_def Let_def split: sum.splits)

theorem fetch_from_url_not_ok_witness:
  "fst (fetch_from_url (status_world 403) (PStr ''http://x/r1'') (ZenodoFetcher_init False))
     = Inl (ValueError ''Could not download http://x/r1: gone'')
   \<and> fst (fetch_from_url (status_world 200) (PStr ''http://x/r1'') (ZenodoFetcher_init False))
     = Inr (example_response 200 ''gone'')"
  using fetch_from_url_not_ok [of "status_world 403" "''http://x/r1''" "ZenodoFetcher_init False"]
    fetch_from_url_not_ok [of "status_world 200" "''http://x/r1''" "ZenodoFetcher_init False"]
  by (simp add: status_world_def example_response_def)

text \<open>
  Claim C7, as the spec has it, fails: the error does not carry the status code. A response
  404 and a response 410 with the same text fail with the same error.
\<close>

theorem fetch_from_url_error_without_status:
  "fst (fetch_from_url (status_world 404) (PStr ''http://x/r1'') (ZenodoFetcher_init False))
     = Inl (ValueError ''Could not download http://x/r1: gone'')
   \<and> fst (fetch_from_url (status_world 410) (PStr ''http://x/r1'') (ZenodoFetcher_init False))
     = Inl (ValueError ''Could not download http://x/r1: gone'')"
  by (simp add: fetch_from_url_def status_world_def example_response_def Let_def)

lemma fetch_from_url_settings:
  "fetch_from_url w url f = (r, f1) \<Longrightarrow>
   dataset_to_doi f1 = dataset_to_doi f \<and> descriptor_cache f1 = descriptor_cache f
   \<and> api_root f1 = api_root f \<and> token f1 = token f"
  by (auto simp: fetch_from_url_def Let_def split: pyval.splits sum.splits if_splits)

lemma get_descriptor_loop_other_files:
  "list_all other_file fs \<Longrightarrow>
   get_descriptor_loop w dset d fs f =
     (Inl (RuntimeError (''Zenodo datapackage for '' @ dset @ ''/'' @ d
             @ '' does not contain valid datapackage.json'')), f)"
  by (induction fs) (auto simp: other_file_def split: sum.splits)

lemma get_descriptor_loop_stores:
  "get_descriptor_loop w dset d fs f = (Inr desc, f1) \<Longrightarrow>
   descriptor_cache f1 = (descriptor_cache f)(d \<mapsto> desc) \<and> dataset_to_doi f1 = dataset_to_doi f"
proof (induction fs)
  case Nil
  then show ?case by simp
next
  case (Cons entry rest)
  then show ?case
    by (auto split: sum.splits if_splits prod.splits dest!: fetch_from_url_settings)
qed

lemma get_descriptor_loop_keeps:
  "get_descriptor_loop w dset d fs f = (r, f1) \<Longrightarrow>
   descriptor_cache f d' = Some desc' \<Longrightarrow> d' \<noteq> d \<Longrightarrow>
   descriptor_cache f1 d' = Some desc'"
proof (induction fs)
  case Nil
  then show ?case by simp
next
  case (Cons entry rest)
  then show ?case
    by (auto split: sum.splits if_splits prod.splits dest!: fetch_from_url_settings)
qed

lemma get_descriptor_unknown:
  "map_of (dataset_to_doi f) dset = None \<Longrightarrow>
   get_descriptor w dset f = (Inl (KeyError (''No doi found for dataset '' @ dset)), f)"
  by (simp add: get_descriptor_def)

lemma get_descriptor_no_manifest:
  assumes "map_of (dataset_to_doi f) dset = Some d" "d \<noteq> []" "descriptor_cache f d = None"
    and "doi_to_url f d = Inr url" "fetch_from_url w (PStr url) f = (Inr dpkg, f1)"
    and "resp_json dpkg = Inr j" "py_getitem j ''files'' = Inr (PList fs)" "list_all other_file fs"
  shows "get_descriptor w dset f =
     (Inl (RuntimeError (''Zenodo datapackage for '' @ dset @ ''/'' @ d
             @ '' does not contain valid datapackage.json'')), f1)"
  using assms by (simp add: get_descriptor_def py_iter_def get_descriptor_loop_other_files)

lemma get_descriptor_memo:
  assumes "get_descriptor w dset f = (Inr desc, f1)"
  shows "\<exists>d. map_of (dataset_to_doi f) dset = Some d \<and> descriptor_cache f1 d = Some desc"
    and "get_descriptor w dset f1 = (Inr desc, f1)"
proof -
  from assms obtain d where d: "map_of (dataset_to_doi f) dset = Some d" "d \<noteq> []"
    by (auto simp: get_descriptor_def split: option.splits if_splits)
  have "descriptor_cache f1 d = Some desc \<and> dataset_to_doi f1 = dataset_to_doi f"
  proof (cases "descriptor_cache f d")
    case (Some x)
    with assms d show ?thesis by (simp add: get_descriptor_def)
  next
    case None
    with assms d obtain fs f0 where "get_descriptor_loop w dset d fs f0 = (Inr desc, f1)"
      "dataset_to_doi f0 = dataset_to_doi f"
      by (auto simp: get_descriptor_def split: sum.splits prod.splits dest!: fetch_from_url_settings)
    then show ?thesis
      using get_descriptor_loop_stores by fastforce
  qed
  with d show "\<exists>d. map_of (dataset_to_doi f) dset = Some d \<and> descriptor_cache f1 d = Some desc"
    by simp
  from \<open>descriptor_cache f1 d = Some desc \<and> dataset_to_doi f1 = dataset_to_doi f\<close> d
  show "get_descriptor w dset f1 = (Inr desc, f1)"
    by (simp add: get_descriptor_def)
qed

lemma get_descriptor_keeps:
  assumes "get_descriptor w dset f = (r, f1)" "descriptor_cache f d' = Some desc'"
  shows "descriptor_cache f1 d' = Some desc'"
proof (cases "map_of (dataset_to_doi f) dset")
  case None
  with assms show ?thesis by (simp add: get_descriptor_def)
next
  case (Some d)
  show ?thesis
  proof (cases "d = [] \<or> descriptor_cache f d \<noteq> None")
    case True
    with assms Some show ?thesis
      by (auto simp: get_descriptor_def split: if_splits option.splits)
  next
    case False
    then have "d' \<noteq> d" using assms(2) by auto
    with assms Some False show ?thesis
      by (auto simp: get_descriptor_def split: sum.splits prod.splits
            dest!: fetch_from_url_settings dest: get_descriptor_loop_keeps)
  qed
qed

lemma init_settings:
  "api_root (ZenodoFetcher_init False) = ''https://zenodo.org/api''"
  "token (ZenodoFetcher_init False) = ''KXcG5s9TqeuPh1Ukt5QYbzhCElp9LxuqAuiwdqHP0WS4qGIQiydHn6FBtdJ5''"
  "http_log (ZenodoFetcher_init False) = []"
  "descriptor_cache (ZenodoFetcher_init False) = Map.empty"
  "map_of (dataset_to_doi (ZenodoFetcher_init False)) ''eia860'' = Some ''10.5281/zenodo.4127027''"
  "map_of (dataset_to_doi (ZenodoFetcher_init False)) ''eia861'' = Some ''10.5281/zenodo.4127029''"
  "map_of (dataset_to_doi (ZenodoFetcher_init False)) ''eia999'' = None"
  by (simp_all add: ZenodoFetcher_init_def DOI_def TOKEN_def API_ROOT_def Let_def)

lemma example_doi_to_url:
  "api_root f = ''https://zenodo.org/api'' \<Longrightarrow>
   doi_to_url f ''10.5281/zenodo.4127027''
     = Inr ''https://zenodo.org/api/deposit/depositions/4127027''"
  "api_root f = ''https://zenodo.org/api'' \<Longrightarrow>
   doi_to_url f ''10.5281/zenodo.4127029''
     = Inr ''https://zenodo.org/api/deposit/depositions/4127029''"
  by (simp_all add: doi_to_url_def match_zenodo_def is_digit_def newline_def int_of_digits_def
      str_nat.simps digit_char_def)

lemma example_http_simps:
  "example_http log (''https://zenodo.org/api/deposit/depositions/4127027'', t)
     = Inr (ok_json (example_files ''datapackage.json''))"
  "example_http log (''https://zenodo.org/api/deposit/depositions/4127029'', t)
     = Inr (ok_json (example_files ''readme.txt''))"
  "example_http log (''https://zenodo.org/api/files/a/datapackage.json'', t)
     = Inr (ok_json (datapackage_json example_descriptor))"
  "example_http log (''http://x/r1'', t) = Inr (example_response 200 ''one'')"
  "example_http log (''http://x/r2'', t) = Inr (example_response 200 ''two'')"
  "example_http log (''http://y/r3'', t) = Inr (example_response 200 ''three'')"
  by (simp_all add: example_http_def)

lemma fetch_from_url_ok:
  "http_get w (http_log f) (u, token f) = Inr r \<Longrightarrow> status_code r = 200 \<Longrightarrow>
   fetch_from_url w (PStr u) f = (Inr r, f\<lparr>http_log := http_log f @ [(u, token f)]\<rparr>)"
  by (simp add: fetch_from_url_def Let_def)

lemma example_world_simps:
  "http_get example_world = example_http"
  "package_errors example_world = example_package_errors"
  by (simp_all add: example_world_def)

lemma example_manifest_valid:
  "DatapackageDescriptor_init example_package_errors (datapackage_json example_descriptor)
     ''eia860'' ''10.5281/zenodo.4127027'' = Inr example_descriptor"
  by (simp add: DatapackageDescriptor_init_def validate_datapackage_def example_package_errors_def
      example_descriptor_def py_getitem_def)


lemma example_fetch:
  "fetch_from_url example_world (PStr ''https://zenodo.org/api/deposit/depositions/4127027'') f
     = (Inr (ok_json (example_files ''datapackage.json'')),
        f\<lparr>http_log := http_log f @ [(''https://zenodo.org/api/deposit/depositions/4127027'', token f)]\<rparr>)"
  "fetch_from_url example_world (PStr ''https://zenodo.org/api/deposit/depositions/4127029'') f
     = (Inr (ok_json (example_files ''readme.txt'')),
        f\<lparr>http_log := http_log f @ [(''https://zenodo.org/api/deposit/depositions/4127029'', token f)]\<rparr>)"
  "fetch_from_url example_world (PStr ''https://zenodo.org/api/files/a/datapackage.json'') f
     = (Inr (ok_json (datapackage_json example_descriptor)),
        f\<lparr>http_log := http_log f @ [(''https://zenodo.org/api/files/a/datapackage.json'', token f)]\<rparr>)"
  "fetch_from_url example_world (PStr ''http://x/r1'') f
     = (Inr (example_response 200 ''one''), f\<lparr>http_log := http_log f @ [(''http://x/r1'', token f)]\<rparr>)"
  "fetch_from_url example_world (PStr ''http://x/r2'') f
     = (Inr (example_response 200 ''two''), f\<lparr>http_log := http_log f @ [(''http://x/r2'', token f)]\<rparr>)"
  "fetch_from_url example_world (PStr ''http://y/r3'') f
     = (Inr (example_response 200 ''three''), f\<lparr>http_log := http_log f @ [(''http://y/r3'', token f)]\<rparr>)"
  by (rule fetch_from_url_ok;
      simp add: example_world_simps example_http_simps ok_json_def example_response_def)+

lemma example_get_descriptor_loop:
  "get_descriptor_loop example_world ''eia860'' ''10.5281/zenodo.4127027''
     [PDict [(''filename'', PStr ''eia-2020.zip''),
             (''links'', PDict [(''download'', PStr ''https://zenodo.org/api/files/a/eia-2020.zip'')])],
      PDict [(''filename'', PStr ''datapackage.json''),
             (''links'', PDict [(''download'', PStr ''https://zenodo.org/api/files/a/datapackage.json'')])]] f
   = (Inr example_descriptor,
      f\<lparr>http_log := http_log f @ [(''https://zenodo.org/api/files/a/datapackage.json'', token f)],
        descriptor_cache := (descriptor_cache f)(''10.5281/zenodo.4127027'' \<mapsto> example_descriptor)\<rparr>)"
  by (simp add: py_getitem_def example_fetch ok_json_def example_world_simps example_manifest_valid)

lemma example_get_descriptor:
  assumes "api_root f = ''https://zenodo.org/api''"
    and "map_of (dataset_to_doi f) ''eia860'' = Some ''10.5281/zenodo.4127027''"
    and "descriptor_cache f ''10.5281/zenodo.4127027'' = None"
  shows "get_descriptor example_world ''eia860'' f
    = (Inr example_descriptor,
       f\<lparr>http_log := http_log f @ [(''https://zenodo.org/api/deposit/depositions/4127027'', token f),
                                   (''https://zenodo.org/api/files/a/datapackage.json'', token f)],
         descriptor_cache := (descriptor_cache f)(''10.5281/zenodo.4127027'' \<mapsto> example_descriptor)\<rparr>)"
  using assms
  by (simp add: get_descriptor_def example_doi_to_url example_fetch ok_json_def example_files_def
      py_getitem_def py_iter_def example_world_simps example_manifest_valid)

lemma example_get_descriptor_eia861:
  assumes "api_root f = ''https://zenodo.org/api''"
    and "map_of (dataset_to_doi f) ''eia861'' = Some ''10.5281/zenodo.4127029''"
    and "descriptor_cache f ''10.5281/zenodo.4127029'' = None"
  shows "get_descriptor example_world ''eia861'' f
    = (Inl (RuntimeError ''Zenodo datapackage for eia861/10.5281/zenodo.4127029 does not contain valid datapackage.json''),
       f\<lparr>http_log := http_log f @ [(''https://zenodo.org/api/deposit/depositions/4127029'', token f)]\<rparr>)"
  using assms
  by (simp add: get_descriptor_def example_doi_to_url example_fetch ok_json_def example_files_def
      py_getitem_def py_iter_def)

text \<open>
  Claim C6. \<open>get_descriptor\<close> raises KeyError for a dataset that is not in the table of
  DOIs, and changes nothing. When the deposition is fetched and none of its files is named
  \<open>datapackage.json\<close>, it raises RuntimeError. When it returns a descriptor, the descriptor
  is stored under the DOI of the dataset, and a second call in the state the first one left
  returns the same descriptor and leaves the state as it is: no request is sent. No call
  removes or replaces a descriptor that is stored.
\<close>

theorem get_descriptor_errors_and_memo:
  "(map_of (dataset_to_doi f) dset = None \<longrightarrow>
      get_descriptor w dset f = (Inl (KeyError (''No doi found for dataset '' @ dset)), f))
   \<and> (map_of (dataset_to_doi f) dset = Some d \<and> d \<noteq> [] \<and> descriptor_cache f d = None
        \<and> doi_to_url f d = Inr url \<and> fetch_from_url w (PStr url) f = (Inr dpkg, f1)
        \<and> resp_json dpkg = Inr j \<and> py_getitem j ''files'' = Inr (PList fs)
        \<and> list_all other_file fs \<longrightarrow>
      get_descriptor w dset f =
        (Inl (RuntimeError (''Zenodo datapackage for '' @ dset @ ''/'' @ d
                @ '' does not contain valid datapackage.json'')), f1))
   \<and> (get_descriptor w dset f = (Inr desc, f2) \<longrightarrow>
        (\<exists>d. map_of (dataset_to_doi f) dset = Some d \<and> descriptor_cache f2 d = Some desc)
        \<and> get_descriptor w dset f2 = (Inr desc, f2))
   \<and> (get_descriptor w dset f = (r, f3) \<and> descriptor_cache f d' = Some desc' \<longrightarrow>
        descriptor_cache f3 d' = Some desc')"
proof (intro conjI impI)
  assume "map_of (dataset_to_doi f) dset = None"
  then show "get_descriptor w dset f = (Inl (KeyError (''No doi found for dataset '' @ dset)), f)"
    by (rule get_descriptor_unknown)
next
  assume "map_of (dataset_to_doi f) dset = Some d \<and> d \<noteq> [] \<and> descriptor_cache f d = None
        \<and> doi_to_url f d = Inr url \<and> fetch_from_url w (PStr url) f = (Inr dpkg, f1)
        \<and> resp_json dpkg = Inr j \<and> py_getitem j ''files'' = Inr (PList fs)
        \<and> list_all other_file fs"
  then show "get_descriptor w dset f =
        (Inl (RuntimeError (''Zenodo datapackage for '' @ dset @ ''/'' @ d
                @ '' does not contain valid datapackage.json'')), f1)"
    by (elim conjE) (rule get_descriptor_no_manifest)
next
  assume "get_descriptor w dset f = (Inr desc, f2)"
  then show "\<exists>d. map_of (dataset_to_doi f) dset = Some d \<and> descriptor_cache f2 d = Some desc"
    by (rule get_descriptor_memo)
next
  assume "get_descriptor w dset f = (Inr desc, f2)"
  then show "get_descriptor w dset f2 = (Inr desc, f2)"
    by (rule get_descriptor_memo)
next
  assume "get_descriptor w dset f = (r, f3) \<and> descriptor_cache f d' = Some desc'"
  then show "descriptor_cache f3 d' = Some desc'"
    using get_descriptor_keeps by blast
qed

theorem get_descriptor_errors_and_memo_witness:
  "fst (get_descriptor example_world ''eia999'' (ZenodoFetcher_init False))
     = Inl (KeyError ''No doi found for dataset eia999'')
   \<and> fst (get_descriptor example_world ''eia861'' (ZenodoFetcher_init False))
     = Inl (RuntimeError ''Zenodo datapackage for eia861/10.5281/zenodo.4127029 does not contain valid datapackage.json'')
   \<and> fst (get_descriptor example_world ''eia860'' (ZenodoFetcher_init False)) = Inr example_descriptor
   \<and> get_descriptor example_world ''eia860''
         (snd (get_descriptor example_world ''eia860'' (ZenodoFetcher_init False)))
       = (Inr example_descriptor, snd (get_descriptor example_world ''eia860'' (ZenodoFetcher_init False)))
   \<and> http_log (snd (get_descriptor example_world ''eia860'' (ZenodoFetcher_init False)))
       = [(''https://zenodo.org/api/deposit/depositions/4127027'', token (ZenodoFetcher_init False)),
          (''https://zenodo.org/api/files/a/datapackage.json'', token (ZenodoFetcher_init False))]"
proof -
  let ?f = "ZenodoFetcher_init False"
  let ?u = "''https://zenodo.org/api/deposit/depositions/4127029''"
  let ?g = "?f\<lparr>http_log := http_log ?f @ [(?u, token ?f)]\<rparr>"
  let ?fs = "[PDict [(''filename'', PStr ''eia-2020.zip''),
                           (''links'', PDict [(''download'', PStr ''https://zenodo.org/api/files/a/eia-2020.zip'')])],
                    PDict [(''filename'', PStr ''readme.txt''),
                           (''links'', PDict [(''download'', PStr ''https://zenodo.org/api/files/a/datapackage.json'')])]]"
  have "get_descriptor example_world ''eia999'' ?f
      = (Inl (KeyError (''No doi found for dataset '' @ ''eia999'')), ?f)"
    by (rule get_descriptor_errors_and_memo [THEN conjunct1, THEN mp]) (simp add: init_settings)
  then have unknown: "fst (get_descriptor example_world ''eia999'' ?f)
      = Inl (KeyError ''No doi found for dataset eia999'')"
    by simp
  have hyps: "map_of (dataset_to_doi ?f) ''eia861'' = Some ''10.5281/zenodo.4127029''
        \<and> ''10.5281/zenodo.4127029'' \<noteq> [] \<and> descriptor_cache ?f ''10.5281/zenodo.4127029'' = None
        \<and> doi_to_url ?f ''10.5281/zenodo.4127029'' = Inr ?u
        \<and> fetch_from_url example_world (PStr ?u) ?f = (Inr (ok_json (example_files ''readme.txt'')), ?g)
        \<and> resp_json (ok_json (example_files ''readme.txt'')) = Inr (example_files ''readme.txt'')
        \<and> py_getitem (example_files ''readme.txt'') ''files'' = Inr (PList ?fs)
        \<and> list_all other_file ?fs"
    by (simp add: init_settings example_doi_to_url example_fetch ok_json_def other_file_def
        py_getitem_def example_files_def)
  have "get_descriptor example_world ''eia861'' ?f
      = (Inl (RuntimeError (''Zenodo datapackage for '' @ ''eia861'' @ ''/'' @ ''10.5281/zenodo.4127029''
                @ '' does not contain valid datapackage.json'')), ?g)"
    by (rule get_descriptor_errors_and_memo [THEN conjunct2, THEN conjunct1, THEN mp, OF hyps])
  then have missing: "fst (get_descriptor example_world ''eia861'' ?f)
      = Inl (RuntimeError ''Zenodo datapackage for eia861/10.5281/zenodo.4127029 does not contain valid datapackage.json'')"
    by simp
  obtain f2 where first: "get_descriptor example_world ''eia860'' ?f = (Inr example_descriptor, f2)"
    and log: "http_log f2 = [(''https://zenodo.org/api/deposit/depositions/4127027'', token ?f),
          (''https://zenodo.org/api/files/a/datapackage.json'', token ?f)]"
    using example_get_descriptor [of ?f] by (simp add: init_settings)
  have again: "get_descriptor example_world ''eia860'' f2 = (Inr example_descriptor, f2)"
    by (rule get_descriptor_errors_and_memo [THEN conjunct2, THEN conjunct2, THEN conjunct1, THEN mp,
          OF first, THEN conjunct2])
  from unknown missing first log again show ?thesis
    by simp
qed

section \<open>Properties of the datastore\<close>

lemma foldl_message:
  "foldl (\<lambda>msg e. msg @ g e) m errs = m @ concat (map g errs)"
  by (induction errs arbitrary: m) simp_all

lemma init_invalid:
  "pe j = Inr errs \<Longrightarrow> errs \<noteq> [] \<Longrightarrow>
   DatapackageDescriptor_init pe j dset d =
     Inl (ValueError (''Found '' @ str_nat (length errs) @ '' datapackage validation errors:''
            @ [newline] @ concat (map (\<lambda>e. ''  * '' @ e @ [newline]) errs)))"
  by (simp add: DatapackageDescriptor_init_def validate_datapackage_def foldl_message)

lemma init_valid:
  "DatapackageDescriptor_init pe j dset d = Inr desc \<Longrightarrow>
   pe j = Inr [] \<and> desc = \<lparr>datapackage_json = j, dataset = dset, doi = d\<rparr>"
  by (auto simp: DatapackageDescriptor_init_def validate_datapackage_def
      split: sum.splits if_splits)

lemma descriptors_valid_upd:
  "descriptors_valid w m \<Longrightarrow> package_errors w (datapackage_json desc) = Inr [] \<Longrightarrow>
   descriptors_valid w (m(d \<mapsto> desc))"
  by (simp add: descriptors_valid_def)

lemma get_descriptor_loop_valid:
  "get_descriptor_loop w dset d fs f = (r, f1) \<Longrightarrow>
   descriptors_valid w (descriptor_cache f) \<Longrightarrow>
   descriptors_valid w (descriptor_cache f1)
   \<and> (\<forall>desc. r = Inr desc \<longrightarrow> package_errors w (datapackage_json desc) = Inr [])"
proof (induction fs)
  case Nil
  then show ?case by auto
next
  case (Cons entry rest)
  then show ?case
    by (auto simp: descriptors_valid_def split: sum.splits if_splits prod.splits
        dest!: fetch_from_url_settings init_valid init_valid [OF sym])
qed

lemma get_descriptor_valid:
  assumes "get_descriptor w dset f = (r, f1)" "descriptors_valid w (descriptor_cache f)"
  shows "descriptors_valid w (descriptor_cache f1)
   \<and> (\<forall>desc. r = Inr desc \<longrightarrow> package_errors w (datapackage_json desc) = Inr [])"
proof (cases "map_of (dataset_to_doi f) dset")
  case None
  with assms show ?thesis by (auto simp: get_descriptor_def)
next
  case (Some d)
  show ?thesis
  proof (cases "d = [] \<or> descriptor_cache f d \<noteq> None")
    case True
    with assms Some show ?thesis
      by (auto simp: get_descriptor_def descriptors_valid_def split: if_splits option.splits)
  next
    case False
    with assms Some show ?thesis
      by (auto simp: get_descriptor_def split: sum.splits prod.splits
          dest!: fetch_from_url_settings dest: get_descriptor_loop_valid)
  qed
qed

lemma get_resource_valid:
  assumes "get_resource w res f = (r, f1)" "descriptors_valid w (descriptor_cache f)"
  shows "descriptors_valid w (descriptor_cache f1)"
  using assms
  by (auto simp: get_resource_def split: sum.splits prod.splits
      dest!: fetch_from_url_settings dest: get_descriptor_valid)

lemma get_datapackage_descriptor_valid:
  assumes "get_datapackage_descriptor w dset s = (r, s')" "datastore_valid w s"
  shows "datastore_valid w s'
    \<and> (\<forall>desc. r = Inr desc \<longrightarrow> package_errors w (datapackage_json desc) = Inr [])
    \<and> (\<forall>d x. datapackage_descriptors s d = Some x \<longrightarrow> datapackage_descriptors s' d = Some x)"
proof (cases "get_doi (zenodo_fetcher s) dset")
  case (Inl e)
  with assms show ?thesis by (auto simp: get_datapackage_descriptor_def)
next
  case (Inr d)
  show ?thesis
  proof (cases "datapackage_descriptors s d")
    case (Some desc)
    with assms Inr show ?thesis
      by (auto simp: get_datapackage_descriptor_def datastore_valid_def descriptors_valid_def)
  next
    case None
    show ?thesis
    proof (cases "cache_contains (cache s) (PudlResourceKey dset d (PStr ''datapackage.json''))")
      case True
      with assms Inr None show ?thesis
        by (auto simp: get_datapackage_descriptor_def datastore_valid_def descriptors_valid_def
            split: sum.splits prod.splits if_splits dest!: init_valid init_valid [OF sym])
    next
      case False
      obtain r1 f1 where g: "get_descriptor w dset (zenodo_fetcher s) = (r1, f1)"
        by (cases "get_descriptor w dset (zenodo_fetcher s)") auto
      from get_descriptor_valid [OF g] assms(2)
      have v: "descriptors_valid w (descriptor_cache f1)"
        "\<And>desc. r1 = Inr desc \<Longrightarrow> package_errors w (datapackage_json desc) = Inr []"
        by (auto simp: datastore_valid_def)
      from assms Inr None False g v show ?thesis
        by (auto simp: get_datapackage_descriptor_def datastore_valid_def descriptors_valid_def
            split: sum.splits if_splits)
    qed
  qed
qed

lemma serve_resource_valid:
  assumes "serve_resource w res s = (r, s')" "datastore_valid w s"
  shows "datastore_valid w s' \<and> datapackage_descriptors s' = datapackage_descriptors s"
proof (cases "cache_contains (cache s) res")
  case True
  with assms show ?thesis
    by (auto simp: serve_resource_def datastore_valid_def split: prod.splits)
next
  case False
  obtain r1 f1 where g: "get_resource w res (zenodo_fetcher s) = (r1, f1)"
    by (cases "get_resource w res (zenodo_fetcher s)") auto
  from get_resource_valid [OF g] assms(2) have "descriptors_valid w (descriptor_cache f1)"
    by (simp add: datastore_valid_def)
  with assms False g show ?thesis
    by (auto simp: serve_resource_def datastore_valid_def split: sum.splits)
qed

lemma resume_loop_valid:
  assumes "resume_loop w g s = (r, g', s')" "datastore_valid w s"
  shows "datastore_valid w s' \<and> datapackage_descriptors s' = datapackage_descriptors s"
proof (cases g)
  case (Yield res rest)
  obtain r1 s1 where sv: "serve_resource w res s = (r1, s1)"
    by (cases "serve_resource w res s") auto
  from serve_resource_valid [OF sv assms(2)] assms(1) Yield sv show ?thesis
    by (auto split: sum.splits)
qed (use assms in auto)

lemma gen_next_valid:
  assumes "gen_next w g s = (r, g', s')" "datastore_valid w s"
  shows "datastore_valid w s'
    \<and> (\<forall>d x. datapackage_descriptors s d = Some x \<longrightarrow> datapackage_descriptors s' d = Some x)"
proof (cases g)
  case (GenStart dset filters)
  obtain r1 s1 where d: "get_datapackage_descriptor w dset s = (r1, s1)"
    by (cases "get_datapackage_descriptor w dset s") auto
  note v = get_datapackage_descriptor_valid [OF d assms(2)]
  show ?thesis
  proof (cases r1)
    case (Inl e)
    with assms GenStart d v show ?thesis by auto
  next
    case (Inr desc)
    with assms GenStart d have "resume_loop w (call_get_resources desc filters) s1 = (r, g', s')"
      by simp
    from resume_loop_valid [OF this] v show ?thesis by auto
  qed
next
  case (GenLoop gen)
  with assms resume_loop_valid [of w gen s r g' s'] show ?thesis by auto
next
  case GenDone
  with assms show ?thesis by auto
qed

lemma get_unique_resource_valid:
  assumes "get_unique_resource w dset filters s = (r, s')" "datastore_valid w s"
  shows "datastore_valid w s'
    \<and> (\<forall>d x. datapackage_descriptors s d = Some x \<longrightarrow> datapackage_descriptors s' d = Some x)"
proof -
  obtain r1 g1 s1 where n1: "gen_next w (datastore_get_resources dset filters) s = (r1, g1, s1)"
    by (cases "gen_next w (datastore_get_resources dset filters) s") auto
  note v1 = gen_next_valid [OF n1 assms(2)]
  obtain r2 g2 s2 where n2: "gen_next w g1 s1 = (r2, g2, s2)"
    by (cases "gen_next w g1 s1") auto
  from v1 have "datastore_valid w s1" by simp
  note v2 = gen_next_valid [OF n2 this]
  from assms(1) n1 n2 have "s' = s1 \<or> s' = s2"
    by (auto simp: get_unique_resource_def split: next_result.splits)
  with v1 v2 show ?thesis by auto
qed

lemma init_datastore_valid: "datastore_valid w (Datastore_init local_cache gcs_cache sandbox)"
  by (simp add: datastore_valid_def descriptors_valid_def Datastore_init_def
      ZenodoFetcher_init_def Let_def)

lemma cache_find_lookup:
  "cache_contains c k \<Longrightarrow> \<exists>b c'. cache_find c k = Some (b, c') \<and> cache_lookup c k = Some b"
  by (induction c) (auto simp: cache_contains_def cache_lookup_def split: option.splits)

lemma cache_find_keeps:
  "cache_find c k = Some (b, c') \<Longrightarrow>
   map writable c' = map writable c \<and> cache_contains c' k
   \<and> (\<forall>k'. cache_contains c k' \<longrightarrow> cache_contains c' k')"
  by (induction c arbitrary: c') (auto simp: cache_contains_def split: option.splits)

lemma cache_set_keeps:
  "map writable (cache_set c k b) = map writable c
   \<and> (cache_contains c k' \<longrightarrow> cache_contains (cache_set c k b) k')
   \<and> (list_ex writable c \<longrightarrow> cache_contains (cache_set c k b) k)"
  by (induction c) (auto simp: cache_contains_def cache_set_def)

lemma serve_resource_hit:
  assumes "cache_contains (cache s) k"
  shows "\<exists>b c'. cache_lookup (cache s) k = Some b \<and> cache_find (cache s) k = Some (b, c')
          \<and> serve_resource w k s = (Inr b, s\<lparr>cache := c'\<rparr>)"
  using cache_find_lookup [OF assms] assms
  by (auto simp: serve_resource_def cache_get_def)

lemma serve_resource_miss:
  assumes "\<not> cache_contains (cache s) k" "get_resource w k (zenodo_fetcher s) = (Inr b, f')"
  shows "serve_resource w k s = (Inr b, s\<lparr>zenodo_fetcher := f', cache := cache_set (cache s) k b\<rparr>)"
  using assms by (simp add: serve_resource_def)

lemma serve_resource_miss_iff:
  assumes "\<not> cache_contains (cache s) k" "serve_resource w k s = (Inr b, s')"
  shows "\<exists>f'. get_resource w k (zenodo_fetcher s) = (Inr b, f')
           \<and> s' = s\<lparr>zenodo_fetcher := f', cache := cache_set (cache s) k b\<rparr>"
  using assms by (auto simp: serve_resource_def split: sum.splits prod.splits)

lemma serve_resource_cache:
  assumes "serve_resource w k s = (Inr b, s')"
  shows "map writable (cache s') = map writable (cache s)
    \<and> (\<forall>k'. cache_contains (cache s) k' \<longrightarrow> cache_contains (cache s') k')
    \<and> (list_ex writable (cache s) \<longrightarrow> cache_contains (cache s') k)"
proof (cases "cache_contains (cache s) k")
  case True
  from serve_resource_hit [OF True, of w] assms obtain c'
    where "cache_find (cache s) k = Some (b, c')" "s' = s\<lparr>cache := c'\<rparr>"
    by auto
  with cache_find_keeps [of "cache s" k b c'] show ?thesis by auto
next
  case False
  from serve_resource_miss_iff [OF False assms] cache_set_keeps [of "cache s" k b]
  show ?thesis by auto
qed

lemma take_items_keys:
  "take_items w n (GenLoop g) s = (items, err, g2, s') \<Longrightarrow>
   length items \<le> n \<and> map fst items = take (length items) (gen_keys g)
   \<and> (err = None \<and> length items < n \<longrightarrow> map fst items = gen_keys g \<and> gen_raises g = None)"
proof (induction n arbitrary: g s items err g2 s')
  case 0
  then show ?case by simp
next
  case (Suc n)
  show ?case
  proof (cases g)
    case Stop
    with Suc.prems show ?thesis by auto
  next
    case (Raise e)
    with Suc.prems show ?thesis by auto
  next
    case (Yield k rest)
    show ?thesis
    proof (cases "serve_resource w k s")
      case (Pair r s1)
      show ?thesis
      proof (cases r)
        case (Inl e)
        with Suc.prems Yield Pair show ?thesis by auto
      next
        case (Inr b)
        obtain items1 err1 g3 s3 where t: "take_items w n (GenLoop rest) s1 = (items1, err1, g3, s3)"
          by (cases "take_items w n (GenLoop rest) s1") auto
        from Suc.IH [OF t] Suc.prems Yield Pair Inr t show ?thesis by auto
      qed
    qed
  qed
qed

lemma get_unique_resource_none:
  assumes "get_datapackage_descriptor w dset s = (Inr desc, s0)"
    and "call_get_resources desc filters = Stop"
  shows "get_unique_resource w dset filters s =
     (Inl (KeyError (''No resources found for '' @ dset @ '': '' @ py_str (PDict filters))), s0)"
  using assms by (simp add: get_unique_resource_def datastore_get_resources_def)

lemma get_unique_resource_one:
  assumes "get_datapackage_descriptor w dset s = (Inr desc, s0)"
    and "call_get_resources desc filters = Yield k Stop"
    and "serve_resource w k s0 = (Inr b, s1)"
  shows "get_unique_resource w dset filters s = (Inr b, s1)"
  using assms by (simp add: get_unique_resource_def datastore_get_resources_def)

lemma get_unique_resource_many:
  assumes "get_datapackage_descriptor w dset s = (Inr desc, s0)"
    and "call_get_resources desc filters = Yield k (Yield k2 rest)"
    and "serve_resource w k s0 = (Inr b, s1)"
    and "serve_resource w k2 s1 = (Inr b2, s2)"
  shows "get_unique_resource w dset filters s =
     (Inl (KeyError (''Multiple resources found for '' @ dset @ '': '' @ py_str (PDict filters))), s2)"
  using assms by (simp add: get_unique_resource_def datastore_get_resources_def)

lemma example_call_get_resources:
  "call_get_resources example_descriptor [] =
     Yield (example_key ''r1'') (Yield (example_key ''r2'') (Yield (example_key ''r3'') Stop))"
  "call_get_resources example_descriptor [(''year'', PStr ''2020'')] = Yield (example_key ''r1'') Stop"
  "call_get_resources example_descriptor [(''year'', PStr ''1999'')] = Stop"
  by (simp_all add: call_get_resources_def descriptor_get_resources_def example_descriptor_def
      example_entries_def py_getitem_def py_iter_def call_matches_def matches_def py_get_def
      example_key_def)

lemma example_filters_str:
  "py_str (PDict []) = ''{}''"
  "py_str (PDict [(''year'', PStr ''1999'')]) = ''{'' @ [squote] @ ''year'' @ [squote] @ '': '' @ [squote] @ ''1999'' @ [squote] @ ''}''"
  by (simp_all add: repr_str_def repr_char_def squote_def dquote_def backslash_def
      py_isprintable_def Let_def)

lemma example_get_resource:
  assumes "map_of (dataset_to_doi f) ''eia860'' = Some ''10.5281/zenodo.4127027''"
    and "descriptor_cache f ''10.5281/zenodo.4127027'' = Some example_descriptor"
  shows "get_resource example_world (example_key ''r1'') f
           = (Inr ''one'', f\<lparr>http_log := http_log f @ [(''http://x/r1'', token f)]\<rparr>)"
    and "get_resource example_world (example_key ''r2'') f
           = (Inr ''two'', f\<lparr>http_log := http_log f @ [(''http://x/r2'', token f)]\<rparr>)"
    and "get_resource example_world (example_key ''r3'') f
           = (Inr ''three'', f\<lparr>http_log := http_log f @ [(''http://y/r3'', token f)]\<rparr>)"
proof -
  have d: "get_descriptor example_world ''eia860'' f = (Inr example_descriptor, f)"
    using assms by (simp add: get_descriptor_def)
  have p: "get_resource_path example_descriptor (PStr ''r1'') = Inr (PStr ''http://x/r1'')"
    "get_resource_path example_descriptor (PStr ''r2'') = Inr (PStr ''http://x/r2'')"
    "get_resource_path example_descriptor (PStr ''r3'') = Inr (PStr ''http://y/r3'')"
    by (simp_all add: example_descriptor_def example_entries_def get_resource_path_def
        py_getitem_def py_iter_def py_get_def)
  show "get_resource example_world (example_key ''r1'') f
           = (Inr ''one'', f\<lparr>http_log := http_log f @ [(''http://x/r1'', token f)]\<rparr>)"
    by (simp add: get_resource_def example_key_def d p example_fetch example_response_def)
  show "get_resource example_world (example_key ''r2'') f
           = (Inr ''two'', f\<lparr>http_log := http_log f @ [(''http://x/r2'', token f)]\<rparr>)"
    by (simp add: get_resource_def example_key_def d p example_fetch example_response_def)
  show "get_resource example_world (example_key ''r3'') f
           = (Inr ''three'', f\<lparr>http_log := http_log f @ [(''http://y/r3'', token f)]\<rparr>)"
    by (simp add: get_resource_def example_key_def d p example_fetch example_response_def)
qed

lemma example_store_simps:
  "cache example_store = [\<lparr>store = Map.empty, writable = True\<rparr>]"
  "datapackage_descriptors example_store = Map.empty"
  "zenodo_fetcher example_store = ZenodoFetcher_init False"
  by (simp_all add: example_store_def Datastore_init_def)

lemma example_get_datapackage_descriptor:
  "\<exists>s0. get_datapackage_descriptor example_world ''eia860'' example_store = (Inr example_descriptor, s0)
     \<and> cache s0 = [\<lparr>store = [PudlResourceKey ''eia860'' ''10.5281/zenodo.4127027'' (PStr ''datapackage.json'')
                               \<mapsto> get_json_string example_descriptor], writable = True\<rparr>]
     \<and> map_of (dataset_to_doi (zenodo_fetcher s0)) ''eia860'' = Some ''10.5281/zenodo.4127027''
     \<and> descriptor_cache (zenodo_fetcher s0) ''10.5281/zenodo.4127027'' = Some example_descriptor
     \<and> token (zenodo_fetcher s0) = token (ZenodoFetcher_init False)
     \<and> http_log (zenodo_fetcher s0) =
          [(''https://zenodo.org/api/deposit/depositions/4127027'', token (ZenodoFetcher_init False)),
           (''https://zenodo.org/api/files/a/datapackage.json'', token (ZenodoFetcher_init False))]"
proof -
  have g: "get_descriptor example_world ''eia860'' (ZenodoFetcher_init False)
    = (Inr example_descriptor,
       (ZenodoFetcher_init False)\<lparr>http_log := http_log (ZenodoFetcher_init False)
            @ [(''https://zenodo.org/api/deposit/depositions/4127027'', token (ZenodoFetcher_init False)),
               (''https://zenodo.org/api/files/a/datapackage.json'', token (ZenodoFetcher_init False))],
         descriptor_cache := (descriptor_cache (ZenodoFetcher_init False))
            (''10.5281/zenodo.4127027'' \<mapsto> example_descriptor)\<rparr>)"
    by (rule example_get_descriptor) (simp_all add: init_settings)
  show ?thesis
    by (simp add: get_datapackage_descriptor_def get_doi_def example_store_simps init_settings
        cache_contains_def g cache_set_def)
qed

lemma example_serve:
  assumes "map_of (dataset_to_doi (zenodo_fetcher s)) ''eia860'' = Some ''10.5281/zenodo.4127027''"
    and "descriptor_cache (zenodo_fetcher s) ''10.5281/zenodo.4127027'' = Some example_descriptor"
  shows "\<not> cache_contains (cache s) (example_key ''r1'') \<Longrightarrow>
      serve_resource example_world (example_key ''r1'') s
        = (Inr ''one'',
           s\<lparr>zenodo_fetcher := (zenodo_fetcher s)\<lparr>http_log := http_log (zenodo_fetcher s)
                  @ [(''http://x/r1'', token (zenodo_fetcher s))]\<rparr>,
             cache := cache_set (cache s) (example_key ''r1'') ''one''\<rparr>)"
    and "\<not> cache_contains (cache s) (example_key ''r2'') \<Longrightarrow>
      serve_resource example_world (example_key ''r2'') s
        = (Inr ''two'',
           s\<lparr>zenodo_fetcher := (zenodo_fetcher s)\<lparr>http_log := http_log (zenodo_fetcher s)
                  @ [(''http://x/r2'', token (zenodo_fetcher s))]\<rparr>,
             cache := cache_set (cache s) (example_key ''r2'') ''two''\<rparr>)"
    and "\<not> cache_contains (cache s) (example_key ''r3'') \<Longrightarrow>
      serve_resource example_world (example_key ''r3'') s
        = (Inr ''three'',
           s\<lparr>zenodo_fetcher := (zenodo_fetcher s)\<lparr>http_log := http_log (zenodo_fetcher s)
                  @ [(''http://y/r3'', token (zenodo_fetcher s))]\<rparr>,
             cache := cache_set (cache s) (example_key ''r3'') ''three''\<rparr>)"
  by (rule serve_resource_miss, assumption, rule example_get_resource [OF assms])+

lemma example_run:
  "get_datapackage_descriptor example_world ''eia860'' example_store = (Inr example_descriptor, example_s0)"
  "serve_resource example_world (example_key ''r1'') example_s0 = (Inr ''one'', example_s1)"
  "serve_resource example_world (example_key ''r2'') example_s1 = (Inr ''two'', example_s2)"
  "serve_resource example_world (example_key ''r3'') example_s2 = (Inr ''three'', example_s3)"
  "list_ex writable (cache example_s0)"
  "\<not> cache_contains (cache example_s0) (example_key ''r1'')"
  "\<not> cache_contains (cache example_s1) (example_key ''r2'')"
  "cache_contains (cache example_s1) (example_key ''r1'')"
  "cache_lookup (cache example_s1) (example_key ''r1'') = Some ''one''"
  "cache_contains (cache example_s2) (example_key ''r1'')"
  "cache_contains (cache example_s2) (example_key ''r2'')"
  "map snd (http_log (zenodo_fetcher example_s0)) = replicate 2 (token (ZenodoFetcher_init False))"
  "map fst (http_log (zenodo_fetcher example_s0)) =
          [''https://zenodo.org/api/deposit/depositions/4127027'',
           ''https://zenodo.org/api/files/a/datapackage.json'']"
  "map fst (http_log (zenodo_fetcher example_s1)) =
          [''https://zenodo.org/api/deposit/depositions/4127027'',
           ''https://zenodo.org/api/files/a/datapackage.json'', ''http://x/r1'']"
  "map fst (http_log (zenodo_fetcher example_s2)) =
          [''https://zenodo.org/api/deposit/depositions/4127027'',
           ''https://zenodo.org/api/files/a/datapackage.json'', ''http://x/r1'', ''http://x/r2'']"
proof -
  from example_get_datapackage_descriptor obtain s0 where
    d: "get_datapackage_descriptor example_world ''eia860'' example_store = (Inr example_descriptor, s0)"
    and c0: "cache s0 = [\<lparr>store = [PudlResourceKey ''eia860'' ''10.5281/zenodo.4127027'' (PStr ''datapackage.json'')
                               \<mapsto> get_json_string example_descriptor], writable = True\<rparr>]"
    and f0: "map_of (dataset_to_doi (zenodo_fetcher s0)) ''eia860'' = Some ''10.5281/zenodo.4127027''"
      "descriptor_cache (zenodo_fetcher s0) ''10.5281/zenodo.4127027'' = Some example_descriptor"
    and l0: "http_log (zenodo_fetcher s0) =
          [(''https://zenodo.org/api/deposit/depositions/4127027'', token (ZenodoFetcher_init False)),
           (''https://zenodo.org/api/files/a/datapackage.json'', token (ZenodoFetcher_init False))]"
    by blast
  define s1 where "s1 = s0\<lparr>zenodo_fetcher := (zenodo_fetcher s0)\<lparr>http_log := http_log (zenodo_fetcher s0)
                  @ [(''http://x/r1'', token (zenodo_fetcher s0))]\<rparr>,
             cache := cache_set (cache s0) (example_key ''r1'') ''one''\<rparr>"
  define s2 where "s2 = s1\<lparr>zenodo_fetcher := (zenodo_fetcher s1)\<lparr>http_log := http_log (zenodo_fetcher s1)
                  @ [(''http://x/r2'', token (zenodo_fetcher s1))]\<rparr>,
             cache := cache_set (cache s1) (example_key ''r2'') ''two''\<rparr>"
  define s3 where "s3 = s2\<lparr>zenodo_fetcher := (zenodo_fetcher s2)\<lparr>http_log := http_log (zenodo_fetcher s2)
                  @ [(''http://y/r3'', token (zenodo_fetcher s2))]\<rparr>,
             cache := cache_set (cache s2) (example_key ''r3'') ''three''\<rparr>"
  have n0: "\<not> cache_contains (cache s0) (example_key ''r1'')"
    by (simp add: c0 cache_contains_def example_key_def)
  have w0: "list_ex writable (cache s0)"
    by (simp add: c0)
  have c1: "cache s1 = cache_set (cache s0) (example_key ''r1'') ''one''"
    by (simp add: s1_def)
  have n1: "\<not> cache_contains (cache s1) (example_key ''r2'')"
    by (simp add: c1 c0 cache_contains_def cache_set_def example_key_def)
  have h1: "cache_contains (cache s1) (example_key ''r1'')"
    "cache_lookup (cache s1) (example_key ''r1'') = Some ''one''"
    by (simp_all add: c1 c0 cache_contains_def cache_set_def cache_lookup_def)
  have c2: "cache s2 = cache_set (cache s1) (example_key ''r2'') ''two''"
    by (simp add: s2_def)
  have n2: "\<not> cache_contains (cache s2) (example_key ''r3'')"
    by (simp add: c2 c1 c0 cache_contains_def cache_set_def example_key_def)
  have h2: "cache_contains (cache s2) (example_key ''r1'')"
    "cache_contains (cache s2) (example_key ''r2'')"
    by (simp_all add: c2 c1 c0 cache_contains_def cache_set_def)
  have f1: "map_of (dataset_to_doi (zenodo_fetcher s1)) ''eia860'' = Some ''10.5281/zenodo.4127027''"
      "descriptor_cache (zenodo_fetcher s1) ''10.5281/zenodo.4127027'' = Some example_descriptor"
    using f0 by (simp_all add: s1_def)
  have f2: "map_of (dataset_to_doi (zenodo_fetcher s2)) ''eia860'' = Some ''10.5281/zenodo.4127027''"
      "descriptor_cache (zenodo_fetcher s2) ''10.5281/zenodo.4127027'' = Some example_descriptor"
    using f1 by (simp_all add: s2_def)
  have v1: "serve_resource example_world (example_key ''r1'') s0 = (Inr ''one'', s1)"
    unfolding s1_def by (rule example_serve(1) [OF f0 n0])
  have v2: "serve_resource example_world (example_key ''r2'') s1 = (Inr ''two'', s2)"
    unfolding s2_def by (rule example_serve(2) [OF f1 n1])
  have v3: "serve_resource example_world (example_key ''r3'') s2 = (Inr ''three'', s3)"
    unfolding s3_def by (rule example_serve(3) [OF f2 n2])
  have logs: "map snd (http_log (zenodo_fetcher s0)) = replicate 2 (token (ZenodoFetcher_init False))"
    "map fst (http_log (zenodo_fetcher s0)) =
          [''https://zenodo.org/api/deposit/depositions/4127027'',
           ''https://zenodo.org/api/files/a/datapackage.json'']"
    "map fst (http_log (zenodo_fetcher s1)) =
          [''https://zenodo.org/api/deposit/depositions/4127027'',
           ''https://zenodo.org/api/files/a/datapackage.json'', ''http://x/r1'']"
    "map fst (http_log (zenodo_fetcher s2)) =
          [''https://zenodo.org/api/deposit/depositions/4127027'',
           ''https://zenodo.org/api/files/a/datapackage.json'', ''http://x/r1'', ''http://x/r2'']"
    by (simp_all add: s2_def s1_def l0 numeral_2_eq_2)
  have e0: "example_s0 = s0" by (simp add: example_s0_def d)
  have e1: "example_s1 = s1" by (simp add: example_s1_def e0 v1)
  have e2: "example_s2 = s2" by (simp add: example_s2_def e1 v2)
  have e3: "example_s3 = s3" by (simp add: example_s3_def e2 v3)
  show "get_datapackage_descriptor example_world ''eia860'' example_store = (Inr example_descriptor, example_s0)"
    unfolding e0 by (rule d)
  show "serve_resource example_world (example_key ''r1'') example_s0 = (Inr ''one'', example_s1)"
    unfolding e0 e1 by (rule v1)
  show "serve_resource example_world (example_key ''r2'') example_s1 = (Inr ''two'', example_s2)"
    unfolding e1 e2 by (rule v2)
  show "serve_resource example_world (example_key ''r3'') example_s2 = (Inr ''three'', example_s3)"
    unfolding e2 e3 by (rule v3)
  show "list_ex writable (cache example_s0)"
    unfolding e0 by (rule w0)
  show "\<not> cache_contains (cache example_s0) (example_key ''r1'')"
    unfolding e0 by (rule n0)
  show "\<not> cache_contains (cache example_s1) (example_key ''r2'')"
    unfolding e1 by (rule n1)
  show "cache_contains (cache example_s1) (example_key ''r1'')"
    "cache_lookup (cache example_s1) (example_key ''r1'') = Some ''one''"
    unfolding e1 by (rule h1)+
  show "cache_contains (cache example_s2) (example_key ''r1'')"
    "cache_contains (cache example_s2) (example_key ''r2'')"
    unfolding e2 by (rule h2)+
  show "map snd (http_log (zenodo_fetcher example_s0)) = replicate 2 (token (ZenodoFetcher_init False))"
    "map fst (http_log (zenodo_fetcher example_s0)) =
          [''https://zenodo.org/api/deposit/depositions/4127027'',
           ''https://zenodo.org/api/files/a/datapackage.json'']"
    "map fst (http_log (zenodo_fetcher example_s1)) =
          [''https://zenodo.org/api/deposit/depositions/4127027'',
           ''https://zenodo.org/api/files/a/datapackage.json'', ''http://x/r1'']"
    "map fst (http_log (zenodo_fetcher example_s2)) =
          [''https://zenodo.org/api/deposit/depositions/4127027'',
           ''https://zenodo.org/api/files/a/datapackage.json'', ''http://x/r1'', ''http://x/r2'']"
    unfolding e0 e1 e2 by (rule logs)+
qed

lemma partitioned_entry_declared: "partitioned_entry res \<Longrightarrow> declared_entry res"
  by (cases res) auto

lemma partitioned_entry_matches:
  "partitioned_entry res \<Longrightarrow> \<exists>b. matches res filters = Inr b"
  by (cases res)
     (auto simp: matches_def py_get_def all_parts_match_dict split: option.splits pyval.splits)

lemma get_resources_loop_selected:
  assumes "list_all partitioned_entry entries" "''res'' \<notin> set (map fst filters)"
  shows "get_resources_loop d name filters entries
    = gen_of_list (map (resource_key d) (filter (entry_selected name filters) entries))"
  using assms(1)
proof (induction entries)
  case Nil
  then show ?case by simp
next
  case (Cons res rest)
  then have p: "partitioned_entry res" and r: "list_all partitioned_entry rest" by simp_all
  from partitioned_entry_matches [OF p] obtain b where b: "matches res filters = Inr b" by blast
  note n = declared_entry_getitem [OF partitioned_entry_declared [OF p]]
  from Cons.IH [OF r] assms(2) b n show ?case
    by (cases b) (auto simp: call_matches_def entry_selected_def resource_key_def split: bool.splits)
qed

lemma call_get_resources_selected:
  assumes "py_getitem (datapackage_json desc) ''resources'' = Inr (PList entries)"
    and "list_all partitioned_entry entries" "''res'' \<notin> set (map fst filters)"
  shows "call_get_resources desc filters
    = gen_of_list (map (resource_key desc)
        (filter (entry_selected (case map_of filters ''name'' of None \<Rightarrow> PNone | Some v \<Rightarrow> v)
                   (filter (\<lambda>kv. fst kv \<noteq> ''name'') filters)) entries))"
proof -
  from assms(3) have "''res'' \<notin> set (map fst (filter (\<lambda>kv. fst kv \<noteq> ''name'') filters))"
    by auto
  from get_resources_loop_selected [OF assms(2) this] assms(1) show ?thesis
    by (simp add: call_get_resources_def descriptor_get_resources_def py_iter_def)
qed

lemma gen_keys_of_list: "gen_keys (gen_of_list xs) = xs" "gen_raises (gen_of_list xs) = None"
  by (induction xs) simp_all

text \<open>
  Claim C1. Let the descriptor of the dataset be obtained. The first \<open>next\<close> on the
  generator of \<open>Datastore.get_resources\<close> then goes on as the loop over the keys the
  descriptor yields for the filters. For each key the cache is asked first: on a hit the
  item is the key with the bytes the cache holds, and only the cache may change (no request
  is sent, the fetcher is as before); on a miss the bytes come from
  \<open>ZenodoFetcher.get_resource\<close>, are written with \<open>cache.set\<close>, and are yielded. One call of
  \<open>next\<close> takes one key: a caller that asks for up to \<open>n\<close> items gets at most \<open>n\<close>, the
  keys are the first ones of the descriptor's generator in its order, and when the generator
  ends without an error before \<open>n\<close> items they are all of its keys. For a valid manifest
  these keys are the keys of the entries that the name and the filters select, one for each
  such entry, in the order of the manifest.
\<close>

theorem get_resources_cache_first:
  assumes "get_datapackage_descriptor w dset s = (Inr desc, s0)"
  shows "gen_next w (datastore_get_resources dset filters) s
           = gen_next w (GenLoop (call_get_resources desc filters)) s0
   \<and> (cache_contains (cache s1) k \<longrightarrow>
        (\<exists>b c'. cache_lookup (cache s1) k = Some b
           \<and> gen_next w (GenLoop (Yield k g)) s1 = (Yielded (k, b), GenLoop g, s1\<lparr>cache := c'\<rparr>)))
   \<and> (\<not> cache_contains (cache s1) k \<and> get_resource w k (zenodo_fetcher s1) = (Inr b, f') \<longrightarrow>
        gen_next w (GenLoop (Yield k g)) s1
          = (Yielded (k, b), GenLoop g,
             s1\<lparr>zenodo_fetcher := f', cache := cache_set (cache s1) k b\<rparr>))
   \<and> (take_items w n (GenLoop (call_get_resources desc filters)) s0 = (items, err, g2, s2) \<longrightarrow>
        length items \<le> n
        \<and> map fst items = take (length items) (gen_keys (call_get_resources desc filters))
        \<and> (err = None \<and> length items < n \<longrightarrow>
             map fst items = gen_keys (call_get_resources desc filters)
             \<and> gen_raises (call_get_resources desc filters) = None))
   \<and> (py_getitem (datapackage_json desc) ''resources'' = Inr (PList entries)
        \<and> list_all partitioned_entry entries \<and> ''res'' \<notin> set (map fst filters) \<longrightarrow>
        gen_keys (call_get_resources desc filters)
          = map (resource_key desc)
              (filter (entry_selected (case map_of filters ''name'' of None \<Rightarrow> PNone | Some v \<Rightarrow> v)
                         (filter (\<lambda>kv. fst kv \<noteq> ''name'') filters)) entries)
        \<and> gen_raises (call_get_resources desc filters) = None)"
proof (intro conjI impI)
  show "gen_next w (datastore_get_resources dset filters) s
           = gen_next w (GenLoop (call_get_resources desc filters)) s0"
    using assms by (simp add: datastore_get_resources_def)
next
  assume "cache_contains (cache s1) k"
  from serve_resource_hit [OF this, of w]
  show "\<exists>b c'. cache_lookup (cache s1) k = Some b
           \<and> gen_next w (GenLoop (Yield k g)) s1 = (Yielded (k, b), GenLoop g, s1\<lparr>cache := c'\<rparr>)"
    by auto
next
  assume "\<not> cache_contains (cache s1) k \<and> get_resource w k (zenodo_fetcher s1) = (Inr b, f')"
  then show "gen_next w (GenLoop (Yield k g)) s1
          = (Yielded (k, b), GenLoop g,
             s1\<lparr>zenodo_fetcher := f', cache := cache_set (cache s1) k b\<rparr>)"
    by (simp add: serve_resource_miss)
next
  assume t: "take_items w n (GenLoop (call_get_resources desc filters)) s0 = (items, err, g2, s2)"
  from take_items_keys [OF t] show "length items \<le> n" by simp
  from take_items_keys [OF t]
  show "map fst items = take (length items) (gen_keys (call_get_resources desc filters))" by simp
  assume "err = None \<and> length items < n"
  with take_items_keys [OF t]
  show "map fst items = gen_keys (call_get_resources desc filters)"
    and "gen_raises (call_get_resources desc filters) = None" by blast+
next
  assume "py_getitem (datapackage_json desc) ''resources'' = Inr (PList entries)
        \<and> list_all partitioned_entry entries \<and> ''res'' \<notin> set (map fst filters)"
  then have c: "call_get_resources desc filters
    = gen_of_list (map (resource_key desc)
        (filter (entry_selected (case map_of filters ''name'' of None \<Rightarrow> PNone | Some v \<Rightarrow> v)
                   (filter (\<lambda>kv. fst kv \<noteq> ''name'') filters)) entries))"
    by (elim conjE) (rule call_get_resources_selected)
  show "gen_keys (call_get_resources desc filters)
          = map (resource_key desc)
              (filter (entry_selected (case map_of filters ''name'' of None \<Rightarrow> PNone | Some v \<Rightarrow> v)
                         (filter (\<lambda>kv. fst kv \<noteq> ''name'') filters)) entries)"
    unfolding c by (rule gen_keys_of_list)
  show "gen_raises (call_get_resources desc filters) = None"
    unfolding c by (rule gen_keys_of_list)
qed

theorem get_resources_cache_first_witness:
  "fst (gen_next example_world (datastore_get_resources ''eia860'' []) example_store)
     = Yielded (example_key ''r1'', ''one'')
   \<and> map fst (http_log (zenodo_fetcher
         (snd (snd (gen_next example_world (datastore_get_resources ''eia860'' []) example_store)))))
       = [''https://zenodo.org/api/deposit/depositions/4127027'',
          ''https://zenodo.org/api/files/a/datapackage.json'', ''http://x/r1'']
   \<and> fst (gen_next example_world (GenLoop (Yield (example_key ''r1'') Stop)) example_s1)
     = Yielded (example_key ''r1'', ''one'')
   \<and> zenodo_fetcher (snd (snd (gen_next example_world (GenLoop (Yield (example_key ''r1'') Stop)) example_s1)))
     = zenodo_fetcher example_s1
   \<and> map fst (fst (take_items example_world 5 (GenLoop (call_get_resources example_descriptor []))
                     example_s0))
     = [example_key ''r1'', example_key ''r2'', example_key ''r3'']
   \<and> gen_keys (call_get_resources example_descriptor [(''year'', PStr ''2021''), (''name'', PStr ''r3'')])
     = [example_key ''r3'']"
proof -
  note t = get_resources_cache_first [OF example_run(1)]
  from serve_resource_miss_iff [OF example_run(6) example_run(2)] obtain f' where
    g: "get_resource example_world (example_key ''r1'') (zenodo_fetcher example_s0) = (Inr ''one'', f')"
    and s1: "example_s1 = example_s0\<lparr>zenodo_fetcher := f',
        cache := cache_set (cache example_s0) (example_key ''r1'') ''one''\<rparr>"
    by blast
  have "gen_next example_world (datastore_get_resources ''eia860'' []) example_store
      = gen_next example_world (GenLoop (call_get_resources example_descriptor [])) example_s0"
    by (rule t [THEN conjunct1])
  also have "\<dots> = (Yielded (example_key ''r1'', ''one''),
        GenLoop (Yield (example_key ''r2'') (Yield (example_key ''r3'') Stop)), example_s1)"
    unfolding example_call_get_resources s1
    by (rule t [THEN conjunct2, THEN conjunct2, THEN conjunct1, THEN mp, OF conjI,
          OF example_run(6) g])
  finally have first: "gen_next example_world (datastore_get_resources ''eia860'' []) example_store
      = (Yielded (example_key ''r1'', ''one''),
         GenLoop (Yield (example_key ''r2'') (Yield (example_key ''r3'') Stop)), example_s1)" .
  from t [THEN conjunct2, THEN conjunct1, THEN mp, OF example_run(8), of Stop] example_run(9)
  obtain c' where hit: "gen_next example_world (GenLoop (Yield (example_key ''r1'') Stop)) example_s1
      = (Yielded (example_key ''r1'', ''one''), GenLoop Stop, example_s1\<lparr>cache := c'\<rparr>)"
    by auto
  have run: "take_items example_world 5 (GenLoop (call_get_resources example_descriptor [])) example_s0
      = ([(example_key ''r1'', ''one''), (example_key ''r2'', ''two''), (example_key ''r3'', ''three'')],
         None, GenDone, example_s3)"
    by (simp add: eval_nat_numeral example_call_get_resources example_run)
  have "map fst [(example_key ''r1'', ''one''), (example_key ''r2'', ''two''), (example_key ''r3'', ''three'')]
      = gen_keys (call_get_resources example_descriptor [])
      \<and> gen_raises (call_get_resources example_descriptor []) = None"
    by (rule t [THEN conjunct2, THEN conjunct2, THEN conjunct2, THEN conjunct1, THEN mp, OF run,
          THEN conjunct2, THEN conjunct2, THEN mp]) simp
  then have all_keys: "gen_keys (call_get_resources example_descriptor [])
      = [example_key ''r1'', example_key ''r2'', example_key ''r3'']"
    by simp
  have p: "list_all partitioned_entry example_entries"
    by (simp add: example_entries_def)
  have "gen_keys (call_get_resources example_descriptor [(''year'', PStr ''2021''), (''name'', PStr ''r3'')])
      = map (resource_key example_descriptor)
          (filter (entry_selected
                     (case map_of [(''year'', PStr ''2021''), (''name'', PStr ''r3'')] ''name'' of
                        None \<Rightarrow> PNone | Some v \<Rightarrow> v)
                     (filter (\<lambda>kv. fst kv \<noteq> ''name'') [(''year'', PStr ''2021''), (''name'', PStr ''r3'')]))
             example_entries)"
    by (rule t [THEN conjunct2, THEN conjunct2, THEN conjunct2, THEN conjunct2, THEN mp,
          OF conjI, OF example_resources conjI, OF p, THEN conjunct1]) simp
  then have selected: "gen_keys (call_get_resources example_descriptor
        [(''year'', PStr ''2021''), (''name'', PStr ''r3'')]) = [example_key ''r3'']"
    by (simp add: example_entries_def entry_selected_def entry_field_def matches_def py_get_def
        resource_key_def example_key_def example_descriptor_def)
  from first hit run example_run(14) selected show ?thesis
    by simp
qed

text \<open>
  Claim C2. Let the descriptor of the dataset be obtained. When the descriptor yields no key
  for the filters, \<open>get_unique_resource\<close> raises the KeyError "No resources found"; when it
  yields one key and the resource is served, the bytes of that resource are returned; when it
  yields two keys or more and the first two are served, it raises the KeyError "Multiple
  resources found".
\<close>

theorem get_unique_resource_zero_one_many:
  assumes "get_datapackage_descriptor w dset s = (Inr desc, s0)"
  shows "(call_get_resources desc filters = Stop \<longrightarrow>
            get_unique_resource w dset filters s =
              (Inl (KeyError (''No resources found for '' @ dset @ '': '' @ py_str (PDict filters))), s0))
   \<and> (call_get_resources desc filters = Yield k Stop \<and> serve_resource w k s0 = (Inr b, s1) \<longrightarrow>
            get_unique_resource w dset filters s = (Inr b, s1))
   \<and> (call_get_resources desc filters = Yield k (Yield k2 rest)
        \<and> serve_resource w k s0 = (Inr b, s1) \<and> serve_resource w k2 s1 = (Inr b2, s2) \<longrightarrow>
            get_unique_resource w dset filters s =
              (Inl (KeyError (''Multiple resources found for '' @ dset @ '': ''
                      @ py_str (PDict filters))), s2))"
  using get_unique_resource_none [OF assms] get_unique_resource_one [OF assms]
    get_unique_resource_many [OF assms]
  by blast

theorem get_unique_resource_zero_one_many_witness:
  "fst (get_unique_resource example_world ''eia860'' [(''year'', PStr ''1999'')] example_store)
     = Inl (KeyError (''No resources found for eia860: {'' @ [squote] @ ''year'' @ [squote] @ '': ''
              @ [squote] @ ''1999'' @ [squote] @ ''}''))
   \<and> fst (get_unique_resource example_world ''eia860'' [(''year'', PStr ''2020'')] example_store)
     = Inr ''one''
   \<and> fst (get_unique_resource example_world ''eia860'' [] example_store)
     = Inl (KeyError ''Multiple resources found for eia860: {}'')"
proof -
  note t = get_unique_resource_zero_one_many [OF example_run(1)]
  have "get_unique_resource example_world ''eia860'' [(''year'', PStr ''1999'')] example_store =
          (Inl (KeyError (''No resources found for '' @ ''eia860'' @ '': ''
                  @ py_str (PDict [(''year'', PStr ''1999'')]))), example_s0)"
    by (rule t [THEN conjunct1, THEN mp, OF example_call_get_resources(3)])
  moreover have "get_unique_resource example_world ''eia860'' [(''year'', PStr ''2020'')] example_store
      = (Inr ''one'', example_s1)"
    by (rule t [THEN conjunct2, THEN conjunct1, THEN mp, OF conjI,
          OF example_call_get_resources(2) example_run(2)])
  moreover have "get_unique_resource example_world ''eia860'' [] example_store =
          (Inl (KeyError (''Multiple resources found for '' @ ''eia860'' @ '': '' @ py_str (PDict []))),
           example_s2)"
    by (rule t [THEN conjunct2, THEN conjunct2, THEN mp, OF conjI, OF _ conjI,
          OF example_call_get_resources(1) example_run(2) example_run(3)])
  ultimately show ?thesis
    by (simp add: repr_str_def repr_char_def squote_def dquote_def backslash_def
        py_isprintable_def Let_def)
qed

text \<open>
  Claim C10. When \<open>get_unique_resource\<close> ends with the error "Multiple resources found",
  the first two matching resources have been served before: each one that the cache did not
  hold was fetched by the fetcher and written into the cache with \<open>cache.set\<close>, and with a
  writable layer the cache holds both keys afterwards. So the call reports an error and
  leaves a changed cache.
\<close>

theorem get_unique_resource_ambiguous_fills_cache:
  assumes "get_datapackage_descriptor w dset s = (Inr desc, s0)"
    and "call_get_resources desc filters = Yield k1 (Yield k2 rest)"
    and "serve_resource w k1 s0 = (Inr b1, s1)"
    and "serve_resource w k2 s1 = (Inr b2, s2)"
  shows "get_unique_resource w dset filters s =
           (Inl (KeyError (''Multiple resources found for '' @ dset @ '': ''
                   @ py_str (PDict filters))), s2)
   \<and> (\<not> cache_contains (cache s0) k1 \<longrightarrow>
        (\<exists>f'. get_resource w k1 (zenodo_fetcher s0) = (Inr b1, f'))
        \<and> cache s1 = cache_set (cache s0) k1 b1)
   \<and> (\<not> cache_contains (cache s1) k2 \<longrightarrow>
        (\<exists>f'. get_resource w k2 (zenodo_fetcher s1) = (Inr b2, f'))
        \<and> cache s2 = cache_set (cache s1) k2 b2)
   \<and> (list_ex writable (cache s0) \<longrightarrow>
        cache_contains (cache s2) k1 \<and> cache_contains (cache s2) k2)"
proof (intro conjI impI)
  show "get_unique_resource w dset filters s =
           (Inl (KeyError (''Multiple resources found for '' @ dset @ '': ''
                   @ py_str (PDict filters))), s2)"
    using assms by (rule get_unique_resource_many)
next
  assume m: "\<not> cache_contains (cache s0) k1"
  from serve_resource_miss_iff [OF m assms(3)]
  show "\<exists>f'. get_resource w k1 (zenodo_fetcher s0) = (Inr b1, f')"
    and "cache s1 = cache_set (cache s0) k1 b1" by auto
next
  assume m: "\<not> cache_contains (cache s1) k2"
  from serve_resource_miss_iff [OF m assms(4)]
  show "\<exists>f'. get_resource w k2 (zenodo_fetcher s1) = (Inr b2, f')"
    and "cache s2 = cache_set (cache s1) k2 b2" by auto
next
  assume wr: "list_ex writable (cache s0)"
  note c1 = serve_resource_cache [OF assms(3)]
  note c2 = serve_resource_cache [OF assms(4)]
  from c1 wr have "list_ex writable (cache s1)"
    by (metis list_ex_iff list.set_map image_iff)
  with c1 c2 wr show "cache_contains (cache s2) k1" and "cache_contains (cache s2) k2"
    by auto
qed

theorem get_unique_resource_ambiguous_fills_cache_witness:
  "\<not> cache_contains (cache example_store) (example_key ''r1'')
   \<and> \<not> cache_contains (cache example_store) (example_key ''r2'')
   \<and> fst (get_unique_resource example_world ''eia860'' [] example_store)
       = Inl (KeyError ''Multiple resources found for eia860: {}'')
   \<and> cache_contains (cache (snd (get_unique_resource example_world ''eia860'' [] example_store)))
        (example_key ''r1'')
   \<and> cache_contains (cache (snd (get_unique_resource example_world ''eia860'' [] example_store)))
        (example_key ''r2'')
   \<and> map fst (http_log (zenodo_fetcher (snd (get_unique_resource example_world ''eia860'' [] example_store))))
       = [''https://zenodo.org/api/deposit/depositions/4127027'',
          ''https://zenodo.org/api/files/a/datapackage.json'', ''http://x/r1'', ''http://x/r2'']"
proof -
  note t = get_unique_resource_ambiguous_fills_cache
    [OF example_run(1) example_call_get_resources(1) example_run(2) example_run(3)]
  from t have r: "get_unique_resource example_world ''eia860'' [] example_store =
          (Inl (KeyError (''Multiple resources found for '' @ ''eia860'' @ '': '' @ py_str (PDict []))),
           example_s2)"
    by (rule conjunct1)
  from t [THEN conjunct2, THEN conjunct2, THEN conjunct2, THEN mp, OF example_run(5)]
  have c: "cache_contains (cache example_s2) (example_key ''r1'')
      \<and> cache_contains (cache example_s2) (example_key ''r2'')" .
  have n: "\<not> cache_contains (cache example_store) (example_key ''r1'')"
    "\<not> cache_contains (cache example_store) (example_key ''r2'')"
    by (simp_all add: example_store_simps cache_contains_def)
  from r c n example_run(15) show ?thesis
    by (simp add: example_filters_str)
qed

text \<open>
  Claim C9. Constructing a descriptor from a manifest for which the validator reports errors
  raises one ValueError whose message counts the errors and lists every one of them; a
  descriptor that is constructed holds a manifest without errors, unchanged. A new datastore
  holds only validated descriptors in its memos, and \<open>get_descriptor\<close>,
  \<open>get_datapackage_descriptor\<close>, \<open>next\<close> on the generator of \<open>get_resources\<close> and
  \<open>get_unique_resource\<close> keep it so: a descriptor they return passed the validator, and a
  descriptor the datastore holds is never replaced. The methods of a descriptor return
  values and no descriptor, so none of them changes the manifest.
\<close>

theorem descriptors_validated_at_construction:
  "(package_errors w j = Inr errs \<and> errs \<noteq> [] \<longrightarrow>
      DatapackageDescriptor_init (package_errors w) j dset d =
        Inl (ValueError (''Found '' @ str_nat (length errs) @ '' datapackage validation errors:''
               @ [newline] @ concat (map (\<lambda>e. ''  * '' @ e @ [newline]) errs))))
   \<and> (DatapackageDescriptor_init (package_errors w) j dset d = Inr desc \<longrightarrow>
        package_errors w j = Inr [] \<and> desc = \<lparr>datapackage_json = j, dataset = dset, doi = d\<rparr>)
   \<and> datastore_valid w (Datastore_init local_cache gcs_cache sandbox)
   \<and> (descriptors_valid w (descriptor_cache f) \<and> get_descriptor w dset f = (rf, f') \<longrightarrow>
        descriptors_valid w (descriptor_cache f')
        \<and> (\<forall>x. rf = Inr x \<longrightarrow> package_errors w (datapackage_json x) = Inr []))
   \<and> (datastore_valid w s \<and> get_datapackage_descriptor w dset s = (r, s') \<longrightarrow>
        datastore_valid w s'
        \<and> (\<forall>x. r = Inr x \<longrightarrow> package_errors w (datapackage_json x) = Inr [])
        \<and> (\<forall>k x. datapackage_descriptors s k = Some x \<longrightarrow> datapackage_descriptors s' k = Some x))
   \<and> (datastore_valid w s \<and> gen_next w g s = (rn, g', sn) \<longrightarrow>
        datastore_valid w sn
        \<and> (\<forall>k x. datapackage_descriptors s k = Some x \<longrightarrow> datapackage_descriptors sn k = Some x))
   \<and> (datastore_valid w s \<and> get_unique_resource w dset filters s = (ru, su) \<longrightarrow>
        datastore_valid w su
        \<and> (\<forall>k x. datapackage_descriptors s k = Some x \<longrightarrow> datapackage_descriptors su k = Some x))"
  using init_invalid [of "package_errors w" j errs dset d]
    init_valid [of "package_errors w" j dset d desc]
    init_datastore_valid [of w local_cache gcs_cache sandbox]
    get_descriptor_valid [of w dset f rf f']
    get_datapackage_descriptor_valid [of w dset s r s']
    gen_next_valid [of w g s rn g' sn]
    get_unique_resource_valid [of w dset filters s ru su]
  by blast

theorem descriptors_validated_at_construction_witness:
  "DatapackageDescriptor_init (package_errors example_world) (PDict []) ''eia860'' ''10.5281/zenodo.4127027''
     = Inl (ValueError (''Found 2 datapackage validation errors:'' @ [newline]
              @ ''  * resources is a required property'' @ [newline]
              @ ''  * no valid profile'' @ [newline]))
   \<and> package_errors example_world (datapackage_json example_descriptor) = Inr []
   \<and> datastore_valid example_world example_store
   \<and> descriptors_valid example_world
        (descriptor_cache (snd (get_descriptor example_world ''eia860'' (ZenodoFetcher_init False))))
   \<and> datastore_valid example_world example_s0
   \<and> datastore_valid example_world
        (snd (snd (gen_next example_world (datastore_get_resources ''eia860'' []) example_store)))
   \<and> datastore_valid example_world
        (snd (get_unique_resource example_world ''eia860'' [] example_store))"
proof -
  note t = descriptors_validated_at_construction [where w = example_world]
  have e: "package_errors example_world (PDict [])
      = Inr [''resources is a required property'', ''no valid profile'']
    \<and> [''resources is a required property'', ''no valid profile''] \<noteq> []"
    by (simp add: example_world_simps example_package_errors_def py_getitem_def)
  from t [THEN conjunct1, THEN mp, OF e, of "''eia860''" "''10.5281/zenodo.4127027''"]
  have invalid: "DatapackageDescriptor_init (package_errors example_world) (PDict []) ''eia860''
      ''10.5281/zenodo.4127027''
     = Inl (ValueError (''Found 2 datapackage validation errors:'' @ [newline]
              @ ''  * resources is a required property'' @ [newline]
              @ ''  * no valid profile'' @ [newline]))"
    by (simp add: str_nat.simps digit_char_def)
  have m: "DatapackageDescriptor_init (package_errors example_world)
      (datapackage_json example_descriptor) ''eia860'' ''10.5281/zenodo.4127027'' = Inr example_descriptor"
    by (simp add: example_world_simps example_manifest_valid)
  from t [THEN conjunct2, THEN conjunct1, THEN mp, OF m]
  have valid: "package_errors example_world (datapackage_json example_descriptor) = Inr []"
    by simp
  have init: "datastore_valid example_world example_store"
    unfolding example_store_def by (rule t [THEN conjunct2, THEN conjunct2, THEN conjunct1])
  have f0: "descriptors_valid example_world (descriptor_cache (ZenodoFetcher_init False))"
    by (simp add: descriptors_valid_def init_settings)
  have fetcher: "descriptors_valid example_world
        (descriptor_cache (snd (get_descriptor example_world ''eia860'' (ZenodoFetcher_init False))))"
    by (rule t [THEN conjunct2, THEN conjunct2, THEN conjunct2, THEN conjunct1, THEN mp,
          OF conjI, OF f0 surjective_pairing, THEN conjunct1])
  have s0: "datastore_valid example_world example_s0"
    by (rule t [THEN conjunct2, THEN conjunct2, THEN conjunct2, THEN conjunct2, THEN conjunct1,
          THEN mp, OF conjI, OF init example_run(1), THEN conjunct1])
  have p: "\<And>x :: 'a \<times> 'b \<times> 'c. x = (fst x, fst (snd x), snd (snd x))"
    by simp
  have gen: "datastore_valid example_world
        (snd (snd (gen_next example_world (datastore_get_resources ''eia860'' []) example_store)))"
    by (rule t [THEN conjunct2, THEN conjunct2, THEN conjunct2, THEN conjunct2, THEN conjunct2,
          THEN conjunct1, THEN mp, OF conjI, OF init p, THEN conjunct1])
  have uniq: "datastore_valid example_world
        (snd (get_unique_resource example_world ''eia860'' [] example_store))"
    by (rule t [THEN conjunct2, THEN conjunct2, THEN conjunct2, THEN conjunct2, THEN conjunct2,
          THEN conjunct2, THEN mp, OF conjI, OF init surjective_pairing, THEN conjunct1])
  from invalid valid init fetcher s0 gen uniq show ?thesis
    by (intro conjI)
qed

section \<open>Canonical serialisation\<close>

lemma filter_distinct_key:
  "distinct (map f l) \<Longrightarrow> k \<in> set l \<Longrightarrow> filter (\<lambda>x. f k = f x) l = [k]"
proof (induction l)
  case Nil
  then show ?case by simp
next
  case (Cons a l)
  show ?case
  proof (cases "k = a")
    case True
    from Cons.prems have "\<forall>x \<in> set l. f a \<noteq> f x" by auto
    then have "filter (\<lambda>x. f a = f x) l = []" by (simp add: filter_empty_conv)
    with True show ?thesis by simp
  next
    case False
    with Cons.prems have kl: "k \<in> set l" by auto
    from Cons.prems have "f a \<notin> f ` set l" by simp
    with kl have "f k \<noteq> f a" by (metis imageI)
    with kl Cons show ?thesis by simp
  qed
qed

lemma sort_key_distinct_unique:
  assumes "mset zs = mset ys" "distinct (map f zs)"
  shows "sort_key f zs = sort_key f ys"
proof (rule properties_for_sort_key [symmetric])
  show "mset (sort_key f zs) = mset ys" using assms by simp
  show "sorted (map f (sort_key f zs))" by simp
  fix k assume k: "k \<in> set (sort_key f zs)"
  have "mset (map f ys) = mset (map f zs)" using assms(1) by (metis mset_map)
  then have dy: "distinct (map f ys)" using assms(2) by (metis mset_eq_imp_distinct_iff)
  have ds: "distinct (map f (sort_key f zs))" using assms(2) by (simp add: distinct_map)
  have "k \<in> set ys" using k assms(1) by (metis mset_eq_setD set_sort)
  with dy have "filter (\<lambda>x. f k = f x) ys = [k]" by (rule filter_distinct_key)
  moreover from ds k have "filter (\<lambda>x. f k = f x) (sort_key f zs) = [k]" by (rule filter_distinct_key)
  ultimately show "filter (\<lambda>x. f k = f x) (sort_key f zs) = filter (\<lambda>x. f k = f x) ys" by simp
qed

lemma list_all2_insort_key:
  assumes "list_all2 R xs zs" "R x z" "\<And>a b. R a b \<Longrightarrow> f a = f b"
  shows "list_all2 R (insort_key f x xs) (insort_key f z zs)"
  using assms(1)
proof (induction rule: list_all2_induct)
  case Nil
  then show ?case using assms(2) by simp
next
  case (Cons a xs b zs)
  with assms(2,3) show ?case by (auto dest: assms(3))
qed

lemma list_all2_sort_key:
  assumes "list_all2 R xs zs" "\<And>a b. R a b \<Longrightarrow> f a = f b"
  shows "list_all2 R (sort_key f xs) (sort_key f zs)"
  using assms(1)
proof (induction rule: list_all2_induct)
  case Nil
  then show ?case by simp
next
  case (Cons a xs b zs)
  then show ?case by (simp add: list_all2_insort_key assms(2))
qed

lemma map_eq_list_all2:
  "list_all2 (\<lambda>a b. g a = h b) xs ys \<Longrightarrow> map g xs = map h ys"
  by (induction rule: list_all2_induct) simp_all

lemma list_all2_same_length_nil:
  "list_all2 R xs zs \<Longrightarrow> mset zs = mset ys \<Longrightarrow> (xs = []) = (ys = [])"
  by (metis list_all2_Nil list_all2_Nil2 mset_zero_iff)

lemma same_content_encode:
  "same_content a b \<Longrightarrow> wf_pyval a \<longrightarrow> (\<forall>level. json_encode level a = json_encode level b)"
proof (induction rule: same_content.induct)
  case (list xs ys)
  show ?case
  proof (intro impI allI)
    fix level
    assume wf: "wf_pyval (PList xs)"
    from list have "list_all2 (\<lambda>x y. json_encode (Suc level) x = json_encode (Suc level) y) xs ys"
    proof (rule list.rel_mono_strong)
      fix x y
      assume "x \<in> set xs" "same_content x y \<and> (wf_pyval x \<longrightarrow> (\<forall>level. json_encode level x = json_encode level y))"
      with wf show "json_encode (Suc level) x = json_encode (Suc level) y"
        by (simp add: list_all_iff)
    qed
    then have m: "map (json_encode (Suc level)) xs = map (json_encode (Suc level)) ys"
      by (rule map_eq_list_all2)
    from list have "(xs = []) = (ys = [])" by auto
    with m show "json_encode level (PList xs) = json_encode level (PList ys)"
      by simp
  qed
next
  case (dict xs zs ys)
  show ?case
  proof (intro impI allI)
    fix level
    assume wf: "wf_pyval (PDict xs)"
    let ?R = "\<lambda>a b. fst a = fst b
        \<and> json_encode (Suc level) (snd a) = json_encode (Suc level) (snd b)"
    let ?g = "\<lambda>kv. encode_basestring_ascii (fst kv) @ '': '' @ json_encode (Suc level) (snd kv)"
    from dict(1) have r: "list_all2 ?R xs zs"
    proof (rule list.rel_mono_strong)
      fix a b
      assume "a \<in> set xs" "fst a = fst b \<and> same_content (snd a) (snd b)
          \<and> (wf_pyval (snd a) \<longrightarrow> (\<forall>level. json_encode level (snd a) = json_encode level (snd b)))"
      with wf show "?R a b"
        by (simp add: list_all_iff)
    qed
    then have "list_all2 ?R (sort_key fst xs) (sort_key fst zs)"
      by (rule list_all2_sort_key) simp
    then have "list_all2 (\<lambda>a b. ?g a = ?g b) (sort_key fst xs) (sort_key fst zs)"
      by (rule list_all2_mono) simp
    then have m: "map ?g (sort_key fst xs) = map ?g (sort_key fst zs)"
      by (rule map_eq_list_all2)
    from r have "map fst xs = map fst zs"
      by (induction rule: list_all2_induct) simp_all
    with wf have "distinct (map fst zs)" by simp
    with dict(2) have s: "sort_key fst zs = sort_key fst ys"
      by (rule sort_key_distinct_unique)
    from dict have "(xs = []) = (ys = [])" by (rule list_all2_same_length_nil)
    with m s show "json_encode level (PDict xs) = json_encode level (PDict ys)"
      by simp
  qed
qed simp_all

text \<open>
  Claim C8. \<open>get_json_string\<close> is a function of the manifest, so the same descriptor
  always gives the same string. Two descriptors whose manifests have the same content, in
  whatever order their keys were inserted, give the same string: the keys of every
  dictionary are sorted before they are written. The example shows the form, keys in order
  and four spaces for every level.
\<close>

theorem get_json_string_canonical:
  assumes "same_content (datapackage_json d1) (datapackage_json d2)"
    and "wf_pyval (datapackage_json d1)"
  shows "get_json_string d1 = get_json_string d2"
  using same_content_encode [OF assms(1)] assms(2)
  by (simp add: get_json_string_def json_dumps_def)

lemma example_manifest_b_dumps: "json_dumps example_manifest_b = example_canonical"
  by code_simp

lemma example_manifests_same: "same_content example_manifest_a example_manifest_b"
  unfolding example_manifest_a_def example_manifest_b_def
  apply (rule same_content.dict [where zs = "[(''resources'', PList [PDict [(''name'', PStr ''r1''), (''path'', PStr ''r1.zip'')]]), (''name'', PStr ''x'')]"])
   apply (simp add: same_content.str)
   apply (rule same_content.list)
   apply simp
   apply (rule same_content.dict [where zs = "[(''path'', PStr ''r1.zip''), (''name'', PStr ''r1'')]"])
    apply (simp add: same_content.str)
   apply simp
  apply simp
  done

theorem get_json_string_canonical_witness:
  "get_json_string \<lparr>datapackage_json = example_manifest_a, dataset = ''eia860'', doi = ''10.5281/zenodo.4127027''\<rparr>
     = get_json_string \<lparr>datapackage_json = example_manifest_b, dataset = ''eia860'', doi = ''10.5281/zenodo.4127027''\<rparr>
   \<and> get_json_string \<lparr>datapackage_json = example_manifest_a, dataset = ''eia860'', doi = ''10.5281/zenodo.4127027''\<rparr>
     = example_canonical"
proof -
  have wf: "wf_pyval example_manifest_a"
    by (simp add: example_manifest_a_def)
  from get_json_string_canonical [of
      "\<lparr>datapackage_json = example_manifest_a, dataset = ''eia860'', doi = ''10.5281/zenodo.4127027''\<rparr>"
      "\<lparr>datapackage_json = example_manifest_b, dataset = ''eia860'', doi = ''10.5281/zenodo.4127027''\<rparr>"]
    example_manifests_same wf
  have "get_json_string \<lparr>datapackage_json = example_manifest_a, dataset = ''eia860'', doi = ''10.5281/zenodo.4127027''\<rparr>
     = get_json_string \<lparr>datapackage_json = example_manifest_b, dataset = ''eia860'', doi = ''10.5281/zenodo.4127027''\<rparr>"
    by simp
  then show ?thesis
    by (simp add: get_json_string_def example_manifest_b_dumps)
qed

end
